theory Spec2Isabelle
  imports Main
begin

section \<open>Python values\<close>

text \<open>
  A Python 3 \<open>str\<close> is a sequence of code points; under Python 2 the program handles
  byte strings, a sequence of values below 256. Both are lists of naturals here. Lone
  surrogates (U+D800..U+DFFF) are legal elements of a Python 3 \<open>str\<close>; a file opened
  with \<open>errors="surrogateescape"\<close> yields only the escapes U+DC80..U+DCFF among them.
\<close>

type_synonym pystr = "nat list"

definition str :: "string \<Rightarrow> pystr" where
  "str s = map of_char s"

definition DQUOTE :: nat where
  "DQUOTE = 34"

definition UNDERSCORE :: nat where
  "UNDERSCORE = 95"

text \<open>\<open>str(n)\<close> and \<open>"%d" % n\<close> for a non-negative integer.\<close>

fun str_of_nat :: "nat \<Rightarrow> pystr" where
  "str_of_nat n = (if n < 10 then [48 + n] else str_of_nat (n div 10) @ [48 + n mod 10])"

declare str_of_nat.simps [simp del]

text \<open>\<open>sep.join(xs)\<close>.\<close>

fun join :: "pystr \<Rightarrow> pystr list \<Rightarrow> pystr" where
  "join sep [] = []"
| "join sep [x] = x"
| "join sep (x # y # ys) = x @ sep @ join sep (y # ys)"

text \<open>\<open>s.replace(old, new)\<close> for a pattern \<open>old\<close> of one character.\<close>

fun replace_char :: "nat \<Rightarrow> pystr \<Rightarrow> pystr \<Rightarrow> pystr" where
  "replace_char old new [] = []"
| "replace_char old new (c # cs) =
     (if c = old then new @ replace_char old new cs else c # replace_char old new cs)"

text \<open>\<open>s.strip("_")\<close>.\<close>

definition strip_underscores :: "pystr \<Rightarrow> pystr" where
  "strip_underscores s =
     rev (dropWhile (\<lambda>c. c = UNDERSCORE) (rev (dropWhile (\<lambda>c. c = UNDERSCORE) s)))"

text \<open>
  \<open>zip(*table)\<close>: the columns of a list of rows, cut at the shortest row; no columns
  for an empty table.
\<close>

definition zip_star :: "'a list list \<Rightarrow> 'a list list" where
  "zip_star table =
     (if table = [] then []
      else map (\<lambda>i. map (\<lambda>row. row ! i) table) [0 ..< min_list (map length table)])"

text \<open>
  The exceptions the importer raises or lets through. \<open>CouldNotDetectType column\<close> is
  \<open>ValueError("Could not detect type of %r" % (column,))\<close>, \<open>MustSpecifyTypes\<close> is
  \<open>ValueError("Must specify types.")\<close>, \<open>CsvError\<close> is what \<open>csv.Sniffer.sniff\<close>
  raises, and \<open>SqlError args\<close> is an exception of the database driver with its
  \<open>args\<close> tuple.
\<close>

datatype exn =
    CouldNotDetectType "pystr list"
  | MustSpecifyTypes
  | IndexError
  | CsvError
  | SqlError "pystr list"

text \<open>
  What the program takes from the Python runtime and cannot be read off its source: the
  interpreter generation (\<open>PYTHON_3\<close>), which strings \<open>int\<close> and \<open>float\<close> parse,
  and the Unicode character database behind \<open>\W\<close>, \<open>isalpha\<close> and \<open>lower\<close>.
\<close>

record pyenv =
  PYTHON_3 :: bool
  int_accepts :: "pystr \<Rightarrow> bool"
  float_accepts :: "pystr \<Rightarrow> bool"
  isalnum :: "nat \<Rightarrow> bool"
  isalpha :: "nat \<Rightarrow> bool"
  lower :: "nat \<Rightarrow> pystr"

section \<open>Type detection\<close>

definition is_surrogate :: "nat \<Rightarrow> bool" where
  "is_surrogate c = (0xD800 \<le> c \<and> c \<le> 0xDFFF)"

definition is_escape :: "nat \<Rightarrow> bool" where
  "is_escape c = (0xDC80 \<le> c \<and> c \<le> 0xDCFF)"

text \<open>\<open>v.encode("utf-8")\<close> returns unless \<open>v\<close> holds a surrogate.\<close>

definition encode_utf8_ok :: "pystr \<Rightarrow> bool" where
  "encode_utf8_ok v = list_all (\<lambda>c. \<not> is_surrogate c) v"

text \<open>
  \<open>v.encode("utf-8", errors="surrogateescape")\<close>: the handler turns the escapes
  U+DC80..U+DCFF back into bytes and raises on every other surrogate.
\<close>

definition encode_surrogateescape_ok :: "pystr \<Rightarrow> bool" where
  "encode_surrogateescape_ok v = list_all (\<lambda>c. is_escape c \<or> \<not> is_surrogate c) v"

text \<open>Python 2: \<open>unicode(v)\<close> decodes a byte string as ASCII; \<open>str(v)\<close> returns it.\<close>

definition unicode_ok :: "pystr \<Rightarrow> bool" where
  "unicode_ok v = list_all (\<lambda>c. c < 128) v"

definition str_ok :: "pystr \<Rightarrow> bool" where
  "str_ok v = True"

definition INTEGER :: pystr where "INTEGER = str ''INTEGER''"
definition REAL :: pystr where "REAL = str ''REAL''"
definition TEXT :: pystr where "TEXT = str ''TEXT''"
definition BLOB :: pystr where "BLOB = str ''BLOB''"

definition text_caster :: "pyenv \<Rightarrow> pystr \<Rightarrow> bool" where
  "text_caster env = (if PYTHON_3 env then encode_utf8_ok else unicode_ok)"

definition blob_caster :: "pyenv \<Rightarrow> pystr \<Rightarrow> bool" where
  "blob_caster env = (if PYTHON_3 env then encode_surrogateescape_ok else str_ok)"

text \<open>A caster is modelled by the set of strings on which it returns without raising.\<close>

definition typemap :: "pyenv \<Rightarrow> (pystr \<times> (pystr \<Rightarrow> bool)) list" where
  "typemap env =
     [(INTEGER, int_accepts env),
      (REAL, float_accepts env),
      (TEXT, text_caster env),
      (BLOB, blob_caster env)]"

definition scanned_columns :: "pystr list \<Rightarrow> pystr list" where
  "scanned_columns column =
     (let rows_with_content = filter (\<lambda>value. value \<noteq> []) column
      in if rows_with_content = [] then [[]] else rows_with_content)"

text \<open>
  The inner \<open>for typedef, caster in cls.typemap\<close> loop: the first entry whose caster
  returns on every scanned value; \<open>None\<close> is the loop's \<open>else\<close> branch.
\<close>

fun first_caster :: "(pystr \<times> (pystr \<Rightarrow> bool)) list \<Rightarrow> pystr list \<Rightarrow> pystr option" where
  "first_caster [] scanned = None"
| "first_caster ((typedef, caster) # rest) scanned =
     (if list_all caster scanned then Some typedef else first_caster rest scanned)"

fun detect_columns :: "(pystr \<times> (pystr \<Rightarrow> bool)) list \<Rightarrow> pystr list list \<Rightarrow> exn + pystr list" where
  "detect_columns tm [] = Inr []"
| "detect_columns tm (column # rest) =
     (case first_caster tm (scanned_columns column) of
        None \<Rightarrow> Inl (CouldNotDetectType column)
      | Some typedef \<Rightarrow>
          (case detect_columns tm rest of
             Inl e \<Rightarrow> Inl e
           | Inr typedefs \<Rightarrow> Inr (typedef # typedefs)))"

definition detect_types :: "pyenv \<Rightarrow> pystr list list \<Rightarrow> exn + pystr list" where
  "detect_types env table = detect_columns (typemap env) (zip_star table)"

text \<open>
  The strings a file opened with \<open>errors="surrogateescape"\<close> can deliver: no surrogate
  except the escapes that stand for undecodable bytes. A sampled table is a table of such
  strings.
\<close>

definition surrogateescaped :: "pystr \<Rightarrow> bool" where
  "surrogateescaped v = list_all (\<lambda>c. c < 0xD800 \<or> 0xDFFF < c \<or> (0xDC80 \<le> c \<and> c \<le> 0xDCFF)) v"

definition sampled_table :: "pystr list list \<Rightarrow> bool" where
  "sampled_table table = list_all (list_all surrogateescaped) table"

text \<open>The type the specification assigns to a probe set.\<close>

definition column_type :: "pyenv \<Rightarrow> pystr list \<Rightarrow> pystr" where
  "column_type env probe =
     (if list_all (int_accepts env) probe then INTEGER
      else if list_all (float_accepts env) probe then REAL
      else if list_all (text_caster env) probe then TEXT
      else BLOB)"

section \<open>Identifiers and table creation\<close>

definition quote_identifier :: "pystr \<Rightarrow> pystr" where
  "quote_identifier identifier =
     [DQUOTE] @ replace_char DQUOTE [DQUOTE, DQUOTE] identifier @ [DQUOTE]"

text \<open>
  The inverse the specification describes (the program has none): strip the outer
  delimiters, then read every doubled delimiter as one.
\<close>

fun halve_quotes :: "pystr \<Rightarrow> pystr" where
  "halve_quotes (a # b # cs) =
     (if a = DQUOTE \<and> b = DQUOTE then DQUOTE # halve_quotes cs
      else a # halve_quotes (b # cs))"
| "halve_quotes cs = cs"

definition unquote_identifier :: "pystr \<Rightarrow> pystr" where
  "unquote_identifier q = halve_quotes (butlast (tl q))"

text \<open>
  \<open>for char in tablename: if char.isalpha(): char = char.lower(); break\<close> with
  \<open>else: char = "n"\<close>.
\<close>

fun first_alpha :: "pyenv \<Rightarrow> pystr \<Rightarrow> pystr" where
  "first_alpha env [] = str ''n''"
| "first_alpha env (char # rest) =
     (if isalpha env char then lower env char else first_alpha env rest)"

text \<open>
  \<open>(char + str(n) for n in itertools.count(1))\<close> is endless; \<open>zip(columns, types)\<close>
  takes as many names as there are types, so the model generates that many.
\<close>

definition generated_columns :: "pyenv \<Rightarrow> pystr \<Rightarrow> nat \<Rightarrow> pystr list" where
  "generated_columns env tablename k =
     map (\<lambda>n. first_alpha env tablename @ str_of_nat n) [1 ..< Suc k]"

definition re_M :: nat where "re_M = 8"
definition re_U :: nat where "re_U = 32"

text \<open>\<open>\w\<close>: alphanumeric or underscore.\<close>

definition is_word :: "pyenv \<Rightarrow> nat \<Rightarrow> bool" where
  "is_word env c = (isalnum env c \<or> c = UNDERSCORE)"

text \<open>
  \<open>re.sub("\W+", "_", string, count)\<close>, scanning left to right. \<open>left\<close> is the number
  of replacements still allowed (\<open>None\<close>: no limit); \<open>in_run\<close> says that the
  characters being read belong to a run already replaced. When the limit is used up the
  rest of the string is copied.
\<close>

fun sub_runs :: "pyenv \<Rightarrow> nat option \<Rightarrow> bool \<Rightarrow> pystr \<Rightarrow> pystr" where
  "sub_runs env left in_run [] = []"
| "sub_runs env left in_run (c # cs) =
     (if is_word env c then c # sub_runs env left False cs
      else if in_run then sub_runs env left True cs
      else (case left of
              None \<Rightarrow> UNDERSCORE # sub_runs env None True cs
            | Some 0 \<Rightarrow> c # cs
            | Some (Suc k) \<Rightarrow> UNDERSCORE # sub_runs env (Some k) True cs))"

text \<open>The fourth positional parameter of \<open>re.sub\<close> is \<open>count\<close>; 0 means no limit.\<close>

definition re_sub_nonword :: "pyenv \<Rightarrow> pystr \<Rightarrow> nat \<Rightarrow> pystr" where
  "re_sub_nonword env string count =
     sub_runs env (if count = 0 then None else Some count) False string"

text \<open>
  \<open>while column in _columns: base += 1; column = word_column + "_" + str(base)\<close>
\<close>

function dedup :: "pystr \<Rightarrow> pystr list \<Rightarrow> nat \<Rightarrow> pystr \<Rightarrow> pystr" where
  "dedup word_column columns base column =
     (if column \<in> set columns
      then dedup word_column columns (base + 1)
             (word_column @ [UNDERSCORE] @ str_of_nat (base + 1))
      else column)"
  by pat_completeness auto

text \<open>
  The loop ends: the candidates \<open>word_column_2\<close>, \<open>word_column_3\<close>, ... are pairwise
  different and \<open>columns\<close> is finite. \<open>nat_of_digits\<close> reads a decimal numeral back,
  which bounds the \<open>base\<close> of every candidate that occurs in \<open>columns\<close>.
\<close>

definition nat_of_digits :: "pystr \<Rightarrow> nat" where
  "nat_of_digits ds = foldl (\<lambda>a d. 10 * a + (d - 48)) 0 ds"

definition suffix_bound :: "pystr \<Rightarrow> pystr list \<Rightarrow> nat" where
  "suffix_bound word_column columns =
     sum_list (map (\<lambda>c. nat_of_digits (drop (Suc (length word_column)) c)) columns)"

lemma nat_of_digits_str_of_nat: "nat_of_digits (str_of_nat n) = n"
proof (induction n rule: str_of_nat.induct)
  case (1 n)
  show ?case
  proof (cases "n < 10")
    case True
    then show ?thesis by (subst str_of_nat.simps) (simp add: nat_of_digits_def)
  next
    case False
    have "nat_of_digits (str_of_nat n) = 10 * nat_of_digits (str_of_nat (n div 10)) + n mod 10"
      using False by (subst str_of_nat.simps) (simp add: nat_of_digits_def)
    also have "\<dots> = 10 * (n div 10) + n mod 10" using 1 False by simp
    finally show ?thesis by simp
  qed
qed

lemma candidate_le_bound:
  assumes "word_column @ [UNDERSCORE] @ str_of_nat k \<in> set columns"
  shows "k \<le> suffix_bound word_column columns"
proof -
  let ?f = "\<lambda>c. nat_of_digits (drop (Suc (length word_column)) c)"
  have "?f (word_column @ [UNDERSCORE] @ str_of_nat k) \<in> set (map ?f columns)"
    using assms by (simp only: set_map) (rule imageI)
  then have "?f (word_column @ [UNDERSCORE] @ str_of_nat k) \<le> sum_list (map ?f columns)"
    by (simp add: member_le_sum_list)
  moreover have "?f (word_column @ [UNDERSCORE] @ str_of_nat k) = k"
    by (simp add: nat_of_digits_str_of_nat)
  ultimately show ?thesis by (simp add: suffix_bound_def)
qed

termination dedup
proof (relation "measure (\<lambda>(word_column, columns, base, column).
         if column \<in> set columns then Suc (suffix_bound word_column columns - base) else 0)")
  show "wf (measure (\<lambda>(word_column, columns, base, column).
         if column \<in> set columns then Suc (suffix_bound word_column columns - base) else 0))"
    by simp
next
  fix word_column :: pystr and columns :: "pystr list" and base :: nat and column :: pystr
  assume "column \<in> set columns"
  then show "((word_column, columns, base + 1, word_column @ [UNDERSCORE] @ str_of_nat (base + 1)),
               (word_column, columns, base, column))
             \<in> measure (\<lambda>(word_column, columns, base, column).
                 if column \<in> set columns then Suc (suffix_bound word_column columns - base) else 0)"
    using candidate_le_bound[of word_column "base + 1" columns] by auto
qed

declare dedup.simps [simp del]

text \<open>
  The \<open>for column in columns\<close> loop of \<open>create_table\<close>; \<open>ucolumns\<close> is the list
  \<open>_columns\<close> built so far. \<open>re.M | re.U\<close> stands where \<open>re.sub\<close> takes \<open>count\<close>.
\<close>

fun sanitize_loop :: "pyenv \<Rightarrow> pystr list \<Rightarrow> pystr list \<Rightarrow> pystr list" where
  "sanitize_loop env ucolumns [] = ucolumns"
| "sanitize_loop env ucolumns (column # rest) =
     (let word_column = strip_underscores (re_sub_nonword env column (or re_M re_U))
      in sanitize_loop env (ucolumns @ [dedup word_column ucolumns 1 word_column]) rest)"


definition NEWLINE :: nat where
  "NEWLINE = 10"

text \<open>
  The first \<open>if\<close> of \<open>create_table\<close>, which rebinds \<open>columns\<close>. The argument is
  \<open>None\<close> when it is left out; \<open>not columns\<close> holds for \<open>None\<close> and for the empty
  list.
\<close>

definition column_names :: "pyenv \<Rightarrow> pystr \<Rightarrow> pystr list \<Rightarrow> pystr list option \<Rightarrow> pystr list" where
  "column_names env tablename types columns =
     (case columns of
        None \<Rightarrow> generated_columns env tablename (length types)
      | Some [] \<Rightarrow> generated_columns env tablename (length types)
      | Some (c # cs) \<Rightarrow> sanitize_loop env [] (c # cs))"

text \<open>\<open>create_table\<close> up to the statement text.\<close>

definition create_table_query ::
  "pyenv \<Rightarrow> pystr \<Rightarrow> pystr list \<Rightarrow> pystr list option \<Rightarrow> bool \<Rightarrow> exn + pystr" where
  "create_table_query env tablename types columns if_not_exists =
     (let columns1 = column_names env tablename types columns
      in if types = [] then Inl MustSpecifyTypes
         else
           let qcolumns = map quote_identifier columns1;
               table = quote_identifier tablename;
               body = join (str '','' @ [NEWLINE] @ str ''  '')
                        (map (\<lambda>(c, t). c @ str '' '' @ t) (zip qcolumns types));
               infix = (if if_not_exists then str ''IF NOT EXISTS '' else [])
           in Inr (str ''CREATE TABLE '' @ infix @ table @ str '' ('' @ [NEWLINE] @ str ''  ''
                   @ body @ [NEWLINE] @ str '')''))"

section \<open>The database connection\<close>

text \<open>
  A bound parameter is \<open>None\<close> or a string. A statement is its text and its parameters.
  The SQL engine behind the connection is a parameter of the model: given the statements
  in effect and the one to run, it accepts (\<open>None\<close>) or raises with the given \<open>args\<close>.

  The connection follows the \<open>sqlite3\<close> module under its default isolation level: a
  transaction is opened implicitly before INSERT, UPDATE, DELETE and REPLACE, before the
  parameters are bound; any other statement runs in whatever mode the connection is in,
  so a CREATE TABLE issued while no transaction is open takes effect at once. As a
  context manager the connection commits when the body returns and rolls back when it
  raises.
\<close>

datatype sqlval = Null | Value pystr

type_synonym statement = "pystr \<times> sqlval list"

type_synonym engine = "statement list \<Rightarrow> statement \<Rightarrow> pystr list option"

record connection =
  committed :: "statement list"
  pending :: "statement list"
  in_transaction :: bool

definition is_dml :: "pystr \<Rightarrow> bool" where
  "is_dml query =
     (take 6 query \<in> {str ''INSERT'', str ''UPDATE'', str ''DELETE''} \<or> take 7 query = str ''REPLACE'')"

definition execute ::
  "engine \<Rightarrow> connection \<Rightarrow> pystr \<Rightarrow> sqlval list \<Rightarrow> pystr list option \<times> connection" where
  "execute eng dbc query parameters =
     (let dbc1 = (if is_dml query then dbc\<lparr>in_transaction := True\<rparr> else dbc)
      in case eng (committed dbc1 @ pending dbc1) (query, parameters) of
           Some args \<Rightarrow> (Some args, dbc1)
         | None \<Rightarrow>
             (None,
              if in_transaction dbc1
              then dbc1\<lparr>pending := pending dbc1 @ [(query, parameters)]\<rparr>
              else dbc1\<lparr>committed := committed dbc1 @ [(query, parameters)]\<rparr>))"

definition commit :: "connection \<Rightarrow> connection" where
  "commit dbc = \<lparr>committed = committed dbc @ pending dbc, pending = [], in_transaction = False\<rparr>"

definition rollback :: "connection \<Rightarrow> connection" where
  "rollback dbc = \<lparr>committed = committed dbc, pending = [], in_transaction = False\<rparr>"

definition create_table ::
  "pyenv \<Rightarrow> engine \<Rightarrow> connection \<Rightarrow> pystr \<Rightarrow> pystr list \<Rightarrow> pystr list option \<Rightarrow> bool
     \<Rightarrow> (exn + unit) \<times> connection" where
  "create_table env eng dbc tablename types columns if_not_exists =
     (case create_table_query env tablename types columns if_not_exists of
        Inl e \<Rightarrow> (Inl e, dbc)
      | Inr query \<Rightarrow>
          (case execute eng dbc query [] of
             (Some args, dbc') \<Rightarrow> (Inl (SqlError args), dbc')
           | (None, dbc') \<Rightarrow> (Inr (), dbc')))"

text \<open>
  Reading a table back with \<open>SELECT * FROM tablename\<close> and \<open>fetchall()\<close>. sqlite
  stores a bound \<open>None\<close> as NULL and returns it as \<open>None\<close>; it stores a bound string
  as a value that is not NULL, converted as the affinity of its column says, and returns
  that value. The conversion is a parameter: \<open>affinity i v\<close> is what column \<open>i\<close>
  returns for the string \<open>v\<close>. The rows are those of the \<open>INSERT\<close> statements in
  effect for the table, in the order they ran.
\<close>

definition fetch_row :: "(nat \<Rightarrow> pystr \<Rightarrow> 'a) \<Rightarrow> sqlval list \<Rightarrow> 'a option list" where
  "fetch_row affinity parameters =
     map (\<lambda>(i, p). case p of Null \<Rightarrow> None | Value v \<Rightarrow> Some (affinity i v))
       (zip [0 ..< length parameters] parameters)"

definition is_insert_into :: "pystr \<Rightarrow> pystr \<Rightarrow> bool" where
  "is_insert_into tablename query =
     (take (length (str ''INSERT INTO '' @ tablename @ str '' VALUES ('')) query
        = str ''INSERT INTO '' @ tablename @ str '' VALUES ('')"

definition select_all ::
  "(nat \<Rightarrow> pystr \<Rightarrow> 'a) \<Rightarrow> pystr \<Rightarrow> statement list \<Rightarrow> 'a option list list" where
  "select_all affinity tablename log =
     map (\<lambda>stmt. fetch_row affinity (snd stmt))
       (filter (\<lambda>stmt. is_insert_into tablename (fst stmt)) log)"

section \<open>Loading a file\<close>

text \<open>
  The importer object, and the file as the importer sees it: its name, whether
  \<open>csv.Sniffer.sniff\<close> finds a dialect in its first 20 lines, and the records
  \<open>csv.reader\<close> yields for that dialect, one record per line. After \<open>seek(0)\<close> the
  sample reader replays the file from its first record, so the rows inserted are all the
  records of the file, less the header when one is declared.
\<close>

record importer =
  dbc :: connection
  ignore_errors :: bool
  log_warnings :: bool

record csvfile =
  filename :: pystr
  sniffable :: bool
  records :: "pystr list list"

datatype pyvalue = PyNone | PyInt int

text \<open>
  What a call leaves behind: the value returned or the exception raised, the connection,
  and the exceptions handed to \<open>logging.warning\<close>.
\<close>

record outcome =
  returned :: "exn + pyvalue"
  dbc_after :: connection
  logged :: "pystr list list"

text \<open>
  \<open>if not e.args: e.args = ("", )\<close>, then
  \<open>e.args = e.args[:-1] + (e.args[-1] + " (%s, row %d) " % (filename, lineno),)\<close>.
\<close>

definition add_suffix :: "pystr \<Rightarrow> nat \<Rightarrow> pystr list \<Rightarrow> pystr list" where
  "add_suffix fname lineno args =
     (let args1 = (if args = [] then [[]] else args);
          suffix = str '' ('' @ fname @ str '', row '' @ str_of_nat lineno @ str '') ''
      in butlast args1 @ [last args1 @ suffix])"

definition bind_parameters :: "pystr list \<Rightarrow> sqlval list" where
  "bind_parameters row = map (\<lambda>val. if val \<noteq> [] then Value val else Null) row"

text \<open>\<open>for lineno, row in enumerate(rowgen, first_line_number)\<close>.\<close>

fun insert_rows ::
  "engine \<Rightarrow> importer \<Rightarrow> pystr \<Rightarrow> pystr \<Rightarrow> nat \<Rightarrow> pystr list list \<Rightarrow> connection
     \<Rightarrow> pystr list list \<Rightarrow> (exn + unit) \<times> connection \<times> pystr list list" where
  "insert_rows eng self fname query lineno [] c log = (Inr (), c, log)"
| "insert_rows eng self fname query lineno (row # rest) c log =
     (let parameters = bind_parameters row
      in case execute eng c query parameters of
           (None, c') \<Rightarrow> insert_rows eng self fname query (lineno + 1) rest c' log
         | (Some args, c') \<Rightarrow>
             (let args' = (if \<not> ignore_errors self \<or> log_warnings self
                           then add_suffix fname lineno args else args)
              in if \<not> ignore_errors self then (Inl (SqlError args'), c', log)
                 else if log_warnings self
                 then insert_rows eng self fname query (lineno + 1) rest c' (log @ [args'])
                 else insert_rows eng self fname query (lineno + 1) rest c' log))"

text \<open>
  The schema read off the sample: \<open>(has_header, types, first_line_number, columns)\<close>.
  \<open>types_sans_row_one or types_with_row_one\<close> takes the second list when the first is
  empty.
\<close>

definition sample_schema ::
  "pyenv \<Rightarrow> pystr list list \<Rightarrow> exn + (bool \<times> pystr list \<times> nat \<times> pystr list option)" where
  "sample_schema env sample_rows =
     (case detect_types env sample_rows of
        Inl e \<Rightarrow> Inl e
      | Inr types_with_row_one \<Rightarrow>
          (case detect_types env (drop 1 sample_rows) of
             Inl e \<Rightarrow> Inl e
           | Inr types_sans_row_one \<Rightarrow>
               (let has_header = (types_sans_row_one \<noteq> types_with_row_one);
                    types = (if types_sans_row_one \<noteq> [] then types_sans_row_one
                             else types_with_row_one)
                in if has_header
                   then (case sample_rows of
                           [] \<Rightarrow> Inl IndexError
                         | row0 # _ \<Rightarrow> Inr (True, types, 2, Some row0))
                   else Inr (False, types, 1, None))))"

definition insert_query :: "pystr \<Rightarrow> nat \<Rightarrow> pystr" where
  "insert_query tablename n =
     str ''INSERT INTO '' @ tablename @ str '' VALUES (''
       @ join (str '', '') (replicate n (str ''?'')) @ str '')''"

text \<open>The body of \<open>with self.dbc:\<close>.\<close>

definition load_body ::
  "pyenv \<Rightarrow> engine \<Rightarrow> importer \<Rightarrow> csvfile \<Rightarrow> pystr \<Rightarrow> bool \<Rightarrow> pystr list list
     \<Rightarrow> pystr list \<Rightarrow> pystr list option \<Rightarrow> nat \<Rightarrow> pystr list list
     \<Rightarrow> (exn + unit) \<times> connection \<times> pystr list list" where
  "load_body env eng self file tablename create_table_flag sample_rows types columns
     first_line_number rowgen =
     (case (if create_table_flag
            then create_table env eng (dbc self) tablename types columns True
            else (Inr (), dbc self)) of
        (Inl e, c1) \<Rightarrow> (Inl e, c1, [])
      | (Inr u, c1) \<Rightarrow>
          (case sample_rows of
             [] \<Rightarrow> (Inl IndexError, c1, [])
           | row0 # _ \<Rightarrow>
               insert_rows eng self (filename file) (insert_query tablename (length row0))
                 first_line_number rowgen c1 []))"

text \<open>
  Leaving \<open>with self.dbc:\<close>: the connection rolls back when the body raised and commits
  when it returned. \<open>loadfile\<close> has no \<open>return\<close> statement, so a call that does not
  raise returns \<open>None\<close>.
\<close>

definition dbc_exit :: "(exn + unit) \<times> connection \<times> pystr list list \<Rightarrow> outcome" where
  "dbc_exit r =
     (case r of
        (Inl e, c1, log) \<Rightarrow> \<lparr>returned = Inl e, dbc_after = rollback c1, logged = log\<rparr>
      | (Inr u, c1, log) \<Rightarrow> \<lparr>returned = Inr PyNone, dbc_after = commit c1, logged = log\<rparr>)"

definition loadfile :: "pyenv \<Rightarrow> engine \<Rightarrow> importer \<Rightarrow> csvfile \<Rightarrow> pystr \<Rightarrow> bool \<Rightarrow> outcome" where
  "loadfile env eng self file tablename create_table_flag =
     (if \<not> sniffable file
      then \<lparr>returned = Inl CsvError, dbc_after = dbc self, logged = []\<rparr>
      else
        let sample_rows = take 20 (records file)
        in case sample_schema env sample_rows of
             Inl e \<Rightarrow> \<lparr>returned = Inl e, dbc_after = dbc self, logged = []\<rparr>
           | Inr (has_header, types, first_line_number, columns) \<Rightarrow>
               (let rowgen = (if has_header then drop 1 (records file) else records file)
                in dbc_exit
                     (load_body env eng self file tablename create_table_flag sample_rows
                        types columns first_line_number rowgen)))"

text \<open>
  For stating what a load leaves in the database: the rows of \<open>rows\<close> that the engine
  accepts when they are inserted in order with \<open>query\<close>, starting from the statements
  \<open>history\<close> already in effect.
\<close>

fun accepted_rows :: "engine \<Rightarrow> pystr \<Rightarrow> statement list \<Rightarrow> pystr list list \<Rightarrow> pystr list list" where
  "accepted_rows eng query history [] = []"
| "accepted_rows eng query history (row # rest) =
     (case eng history (query, bind_parameters row) of
        None \<Rightarrow> row # accepted_rows eng query (history @ [(query, bind_parameters row)]) rest
      | Some args \<Rightarrow> accepted_rows eng query history rest)"

section \<open>A concrete runtime\<close>

text \<open>
  For evaluating the model on concrete inputs: the ASCII part of a Python 3 runtime.
  \<open>ascii_int\<close> and \<open>ascii_float\<close> follow the grammar \<open>int\<close> and \<open>float\<close> accept
  on strings of ASCII characters: surrounding whitespace, which on such strings is the
  characters 9 to 13 and 32, a sign, digits with single underscores between them; for
  \<open>float\<close> also a fraction, an exponent, and the names inf, infinity and nan. \<open>int\<close>
  raises \<open>ValueError\<close> when the string has more than
  \<open>sys.int_info.default_max_str_digits\<close> digits. A string with a character above 127
  is outside this instance. The theorems below hold for every runtime; this one only
  supplies instances.
\<close>

definition is_space :: "nat \<Rightarrow> bool" where
  "is_space c = (c = 32 \<or> (9 \<le> c \<and> c \<le> 13))"

definition is_digit :: "nat \<Rightarrow> bool" where
  "is_digit c = (48 \<le> c \<and> c \<le> 57)"

definition ascii_isalpha :: "nat \<Rightarrow> bool" where
  "ascii_isalpha c = ((65 \<le> c \<and> c \<le> 90) \<or> (97 \<le> c \<and> c \<le> 122))"

definition ascii_isalnum :: "nat \<Rightarrow> bool" where
  "ascii_isalnum c = (is_digit c \<or> ascii_isalpha c)"

definition ascii_lower :: "nat \<Rightarrow> pystr" where
  "ascii_lower c = [if 65 \<le> c \<and> c \<le> 90 then c + 32 else c]"

fun digitpart :: "pystr \<Rightarrow> bool" where
  "digitpart [] = False"
| "digitpart [c] = is_digit c"
| "digitpart (c # d # cs) =
     (is_digit c \<and> (if d = UNDERSCORE then digitpart cs else digitpart (d # cs)))"

definition strip_space :: "pystr \<Rightarrow> pystr" where
  "strip_space s = rev (dropWhile is_space (rev (dropWhile is_space s)))"

definition drop_sign :: "pystr \<Rightarrow> pystr" where
  "drop_sign s = (case s of [] \<Rightarrow> [] | c # cs \<Rightarrow> if c = 43 \<or> c = 45 then cs else s)"

definition int_max_str_digits :: nat where
  "int_max_str_digits = 4300"

definition ascii_int :: "pystr \<Rightarrow> bool" where
  "ascii_int s =
     (digitpart (drop_sign (strip_space s))
      \<and> length (filter is_digit (drop_sign (strip_space s))) \<le> int_max_str_digits)"

definition mantissa_ok :: "pystr \<Rightarrow> bool" where
  "mantissa_ok m =
     (let ip = takeWhile (\<lambda>c. c \<noteq> 46) m
      in case dropWhile (\<lambda>c. c \<noteq> 46) m of
           [] \<Rightarrow> digitpart ip
         | dot # fp \<Rightarrow> (ip = [] \<and> digitpart fp) \<or> (digitpart ip \<and> (fp = [] \<or> digitpart fp)))"

definition exponent_ok :: "pystr \<Rightarrow> bool" where
  "exponent_ok e = (case e of [] \<Rightarrow> True | e1 # ds \<Rightarrow> digitpart (drop_sign ds))"

definition ascii_float :: "pystr \<Rightarrow> bool" where
  "ascii_float s =
     (let t = drop_sign (strip_space s);
          name = concat (map ascii_lower t)
      in name = str ''inf'' \<or> name = str ''infinity'' \<or> name = str ''nan''
         \<or> (mantissa_ok (takeWhile (\<lambda>c. c \<noteq> 101 \<and> c \<noteq> 69) t)
            \<and> exponent_ok (dropWhile (\<lambda>c. c \<noteq> 101 \<and> c \<noteq> 69) t)))"

definition py3_ascii :: pyenv where
  "py3_ascii =
     \<lparr>PYTHON_3 = True, int_accepts = ascii_int, float_accepts = ascii_float,
      isalnum = ascii_isalnum, isalpha = ascii_isalpha, lower = ascii_lower\<rparr>"

text \<open>
  A small engine for running the examples, after what sqlite and its driver do with the
  statements the importer issues. An \<open>INSERT INTO\<close> a table for which no
  \<open>CREATE TABLE\<close> statement of \<open>create_table\<close> is in effect is refused when it is
  prepared (\<open>no such table\<close>); after that a statement is refused when the number of
  parameters differs from the number of \<open>?\<close> placeholders. The messages are the
  driver's. Nothing else of SQL is read: the engine is meant for the statements of the
  examples, whose inserts have as many placeholders as the table has columns.
\<close>

definition insert_target :: "pystr \<Rightarrow> pystr" where
  "insert_target query = takeWhile (\<lambda>c. c \<noteq> 32) (drop 12 query)"

definition table_created :: "statement list \<Rightarrow> pystr \<Rightarrow> bool" where
  "table_created history tablename =
     list_ex
       (\<lambda>stmt. take (length (str ''CREATE TABLE IF NOT EXISTS '' @ quote_identifier tablename
                                @ str '' (''))
                 (fst stmt)
               = str ''CREATE TABLE IF NOT EXISTS '' @ quote_identifier tablename @ str '' ('')
       history"

definition bindings_engine :: engine where
  "bindings_engine history stmt =
     (if take 12 (fst stmt) = str ''INSERT INTO ''
         \<and> \<not> table_created history (insert_target (fst stmt))
      then Some [str ''no such table: '' @ insert_target (fst stmt)]
      else if count_list (fst stmt) 63 = length (snd stmt) then None
      else Some [str ''Incorrect number of bindings supplied. The current statement uses ''
                 @ str_of_nat (count_list (fst stmt) 63) @ str '', and there are ''
                 @ str_of_nat (length (snd stmt)) @ str '' supplied.''])"

definition fresh_dbc :: connection where
  "fresh_dbc = \<lparr>committed = [], pending = [], in_transaction = False\<rparr>"

text \<open>
  The file of the repository's tests \<open>test_ignore_errors_True\<close> and
  \<open>test_ignore_errors_False\<close>: the line \<open>A,B,C\<close>, twenty lines \<open>1,2,3\<close> and a last
  line \<open>7,8\<close> that is one column short.
\<close>

definition test_file :: csvfile where
  "test_file =
     \<lparr>filename = str ''test.csv'', sniffable = True,
      records = [str ''A'', str ''B'', str ''C'']
                # replicate 20 [str ''1'', str ''2'', str ''3'']
                @ [[str ''7'', str ''8'']]\<rparr>"

text \<open>
  The statements that loading the test file into a table \<open>A\<close> issues: the table
  statement and the insert of a full row.
\<close>

definition test_table_statement :: statement where
  "test_table_statement =
     (str ''CREATE TABLE IF NOT EXISTS '' @ [DQUOTE] @ str ''A'' @ [DQUOTE] @ str '' (''
        @ [NEWLINE] @ str ''  '' @ [DQUOTE] @ str ''A'' @ [DQUOTE] @ str '' INTEGER,''
        @ [NEWLINE] @ str ''  '' @ [DQUOTE] @ str ''B'' @ [DQUOTE] @ str '' INTEGER,''
        @ [NEWLINE] @ str ''  '' @ [DQUOTE] @ str ''C'' @ [DQUOTE] @ str '' INTEGER''
        @ [NEWLINE] @ str '')'', [])"

definition test_insert_statement :: statement where
  "test_insert_statement =
     (str ''INSERT INTO A VALUES (?, ?, ?)'', [Value (str ''1''), Value (str ''2''), Value (str ''3'')])"

text \<open>
  The file of the two lines \<open>x,\<close> and \<open>y,z\<close>: no header, and a first record whose
  second cell is empty. In a column of type TEXT a string is stored and returned as it is.
\<close>

definition empty_cell_file :: csvfile where
  "empty_cell_file =
     \<lparr>filename = str ''cells.csv'', sniffable = True,
      records = [[str ''x'', []], [str ''y'', str ''z'']]\<rparr>"

definition text_affinity :: "nat \<Rightarrow> pystr \<Rightarrow> pystr" where
  "text_affinity i v = v"



section \<open>Quoting identifiers\<close>

lemma replace_char_concat:
  "replace_char old new s = concat (map (\<lambda>c. if c = old then new else [c]) s)"
  by (induction s) simp_all

lemma halve_quotes_doubled:
  "halve_quotes (replace_char DQUOTE [DQUOTE, DQUOTE] s) = s"
proof (induction s)
  case Nil
  show ?case by simp
next
  case (Cons c s)
  show ?case
  proof (cases "c = DQUOTE")
    case True
    then show ?thesis using Cons by simp
  next
    case False
    show ?thesis
    proof (cases "replace_char DQUOTE [DQUOTE, DQUOTE] s")
      case Nil
      then show ?thesis using Cons False by simp
    next
      case (Cons b cs)
      then show ?thesis using Cons.IH False by simp
    qed
  qed
qed

lemma replace_char_all_quotes:
  "replace_char DQUOTE [DQUOTE, DQUOTE] (replicate n DQUOTE) = replicate (2 * n) DQUOTE"
  by (induction n) simp_all

text \<open>
  Claim C7. For every identifier, \<open>quote_identifier\<close> puts one delimiter before and one
  after it and writes every delimiter inside it twice, leaving all other characters as
  they are; stripping the outer delimiters and halving the doubled ones gives the
  identifier back; an identifier of \<open>n\<close> delimiters becomes \<open>2 n + 2\<close> delimiters.
\<close>

theorem quote_identifier_roundtrip:
  "quote_identifier s =
     [DQUOTE] @ concat (map (\<lambda>c. if c = DQUOTE then [DQUOTE, DQUOTE] else [c]) s) @ [DQUOTE]
   \<and> unquote_identifier (quote_identifier s) = s
   \<and> quote_identifier (replicate n DQUOTE) = replicate (2 * n + 2) DQUOTE"
proof (intro conjI)
  show "quote_identifier s =
     [DQUOTE] @ concat (map (\<lambda>c. if c = DQUOTE then [DQUOTE, DQUOTE] else [c]) s) @ [DQUOTE]"
    by (simp add: quote_identifier_def replace_char_concat)
  show "unquote_identifier (quote_identifier s) = s"
    by (simp add: quote_identifier_def unquote_identifier_def butlast_append halve_quotes_doubled)
  show "quote_identifier (replicate n DQUOTE) = replicate (2 * n + 2) DQUOTE"
    by (simp add: quote_identifier_def replace_char_all_quotes replicate_append_same)
qed

theorem quote_identifier_roundtrip_witness:
  "quote_identifier [DQUOTE, 97, DQUOTE] = [DQUOTE, DQUOTE, DQUOTE, 97, DQUOTE, DQUOTE, DQUOTE]
   \<and> unquote_identifier (quote_identifier [DQUOTE, 97, DQUOTE]) = [DQUOTE, 97, DQUOTE]
   \<and> quote_identifier (replicate 2 DQUOTE) = replicate (2 * 2 + 2) DQUOTE"
proof -
  note t = quote_identifier_roundtrip[of "[DQUOTE, 97, DQUOTE]" 2]
  have a: "quote_identifier [DQUOTE, 97, DQUOTE]
             = [DQUOTE, DQUOTE, DQUOTE, 97, DQUOTE, DQUOTE, DQUOTE]"
    by (simp add: quote_identifier_def DQUOTE_def)
  from t have b: "unquote_identifier (quote_identifier [DQUOTE, 97, DQUOTE]) = [DQUOTE, 97, DQUOTE]"
    by (rule conjunct1[OF conjunct2])
  from t have c: "quote_identifier (replicate 2 DQUOTE) = replicate (2 * 2 + 2) DQUOTE"
    by (rule conjunct2[OF conjunct2])
  from a b c show ?thesis by (intro conjI)
qed

section \<open>Properties of type detection\<close>

lemmas runtime_defs = py3_ascii_def ascii_int_def ascii_float_def strip_space_def drop_sign_def
  is_space_def is_digit_def mantissa_ok_def exponent_ok_def ascii_lower_def ascii_isalpha_def
  ascii_isalnum_def str_def UNDERSCORE_def int_max_str_digits_def
lemmas detect_defs = detect_types_def zip_star_def typemap_def scanned_columns_def
  text_caster_def blob_caster_def encode_utf8_ok_def encode_surrogateescape_ok_def
  is_surrogate_def is_escape_def unicode_ok_def str_ok_def

lemma surrogateescaped_blob: "surrogateescaped v \<Longrightarrow> blob_caster env v"
  by (auto simp: surrogateescaped_def blob_caster_def encode_surrogateescape_ok_def str_ok_def
        is_escape_def is_surrogate_def list_all_iff)

lemma python2_blob: "\<not> PYTHON_3 env \<Longrightarrow> blob_caster env v"
  by (simp add: blob_caster_def str_ok_def)

lemma blob_empty: "blob_caster env []"
  by (simp add: blob_caster_def str_ok_def encode_surrogateescape_ok_def)

lemma scanned_columns_subset: "set (scanned_columns column) \<subseteq> insert [] (set column)"
  by (auto simp: scanned_columns_def Let_def)

lemma zip_star_cells:
  assumes "column \<in> set (zip_star table)" and "v \<in> set column"
  shows "\<exists>row\<in>set table. v \<in> set row"
proof -
  from assms(1) have ne: "table \<noteq> []" by (auto simp: zip_star_def)
  from assms(1) ne obtain i where i: "i < min_list (map length table)"
    and col: "column = map (\<lambda>row. row ! i) table"
    by (auto simp: zip_star_def)
  from assms(2) col obtain row where row: "row \<in> set table" and v: "v = row ! i" by auto
  have "min_list (map length table) = Min (set (map length table))"
    using ne by (simp add: min_list_Min)
  also have "\<dots> \<le> length row" using row by (intro Min_le) auto
  finally have "i < length row" using i by simp
  then have "row ! i \<in> set row" by (rule nth_mem)
  with v row show ?thesis by blast
qed

lemma first_caster_typemap:
  assumes "list_all (blob_caster env) probe"
  shows "first_caster (typemap env) probe = Some (column_type env probe)"
  using assms by (simp add: typemap_def column_type_def)

lemma detect_columns_total:
  assumes "\<forall>column\<in>set columns. list_all (blob_caster env) (scanned_columns column)"
  shows "detect_columns (typemap env) columns
           = Inr (map (\<lambda>column. column_type env (scanned_columns column)) columns)"
  using assms by (induction columns) (simp_all add: first_caster_typemap)

lemma blob_accepts_scanned:
  assumes "\<forall>row\<in>set table. \<forall>v\<in>set row. blob_caster env v"
    and "column \<in> set (zip_star table)"
  shows "list_all (blob_caster env) (scanned_columns column)"
proof -
  have "blob_caster env v" if v: "v \<in> set (scanned_columns column)" for v
  proof (cases "v = []")
    case True
    then show ?thesis by (simp add: blob_empty)
  next
    case False
    with v scanned_columns_subset[of column] have "v \<in> set column" by blast
    from zip_star_cells[OF assms(2) this] obtain row
      where "row \<in> set table" and "v \<in> set row" by blast
    with assms(1) show ?thesis by blast
  qed
  then show ?thesis by (simp add: list_all_iff)
qed

lemma detect_types_when_blob_accepts:
  assumes "\<forall>row\<in>set table. \<forall>v\<in>set row. blob_caster env v"
  shows "detect_types env table
           = Inr (map (\<lambda>column. column_type env (scanned_columns column)) (zip_star table))"
  unfolding detect_types_def
  by (rule detect_columns_total) (use assms blob_accepts_scanned in blast)

lemma sampled_cells_blob:
  assumes "PYTHON_3 env \<Longrightarrow> sampled_table table"
  shows "\<forall>row\<in>set table. \<forall>v\<in>set row. blob_caster env v"
proof (cases "PYTHON_3 env")
  case True
  with assms have "sampled_table table" by simp
  then show ?thesis by (auto simp: sampled_table_def list_all_iff surrogateescaped_blob)
next
  case False
  then show ?thesis by (simp add: python2_blob)
qed

text \<open>
  Claim C1. For every sampled table (under Python 3: every cell a string that reading with
  \<open>surrogateescape\<close> can deliver), \<open>detect_types\<close> returns one type per column of
  \<open>zip(*table)\<close>: with the probe set being the non-empty values of the column, or the
  single empty string when there is none, the type is INTEGER if \<open>int\<close> accepts every
  probe, otherwise REAL if \<open>float\<close> accepts every probe, otherwise TEXT if every probe
  is valid text, otherwise BLOB.
\<close>

theorem detect_types_priority:
  assumes "PYTHON_3 env \<Longrightarrow> sampled_table table"
  shows "detect_types env table =
           Inr (map (\<lambda>column.
                  let probe = (if \<forall>v\<in>set column. v = [] then [[]]
                               else filter (\<lambda>v. v \<noteq> []) column)
                  in if list_all (int_accepts env) probe then INTEGER
                     else if list_all (float_accepts env) probe then REAL
                     else if list_all (text_caster env) probe then TEXT
                     else BLOB)
                (zip_star table))"
proof -
  have probe: "scanned_columns column =
      (if \<forall>v\<in>set column. v = [] then [[]] else filter (\<lambda>v. v \<noteq> []) column)" for column
    by (auto simp: scanned_columns_def Let_def filter_empty_conv)
  have "(\<lambda>column. column_type env (scanned_columns column)) =
      (\<lambda>column.
         let probe = (if \<forall>v\<in>set column. v = [] then [[]]
                      else filter (\<lambda>v. v \<noteq> []) column)
         in if list_all (int_accepts env) probe then INTEGER
            else if list_all (float_accepts env) probe then REAL
            else if list_all (text_caster env) probe then TEXT
            else BLOB)"
    by (rule ext) (simp only: probe column_type_def Let_def)
  then show ?thesis
    using detect_types_when_blob_accepts[OF sampled_cells_blob[OF assms]]
    by (simp only:)
qed

theorem detect_types_priority_witness:
  "sampled_table [[str ''100'', str ''Pony'', str ''13.37'', [0xDC80]],
                  [str ''200'', [], str ''4e1'', [0x41]]]
   \<and> detect_types py3_ascii [[str ''100'', str ''Pony'', str ''13.37'', [0xDC80]],
                               [str ''200'', [], str ''4e1'', [0x41]]]
       = Inr [INTEGER, TEXT, REAL, BLOB]"
proof -
  let ?T = "[[str ''100'', str ''Pony'', str ''13.37'', [0xDC80]],
             [str ''200'', [], str ''4e1'', [0x41::nat]]]"
  have h: "sampled_table ?T"
    by (simp add: sampled_table_def surrogateescaped_def str_def)
  have z: "zip_star ?T = [[str ''100'', str ''200''], [str ''Pony'', []],
                          [str ''13.37'', str ''4e1''], [[0xDC80], [0x41]]]"
    by (simp add: zip_star_def upt_rec)
  show ?thesis
    using h detect_types_priority[of py3_ascii ?T, OF h]
    unfolding z
    by (simp add: runtime_defs text_caster_def encode_utf8_ok_def is_surrogate_def)
qed

text \<open>
  Claim C9, as amended. The BLOB caster accepts every string without surrogates other than
  the escapes U+DC80..U+DCFF (under Python 2, every byte string), so on every table of
  such strings \<open>detect_types\<close> returns a type vector with one entry per column. It does
  not accept every Python 3 string: on a string holding another surrogate, such as
  U+D800, the encoder raises, and \<open>detect_types\<close> raises its \<open>ValueError\<close>.
\<close>

theorem detect_types_total:
  assumes "PYTHON_3 env \<Longrightarrow> sampled_table table"
  shows "(\<forall>row\<in>set table. \<forall>v\<in>set row. blob_caster env v)
         \<and> (\<exists>types. detect_types env table = Inr types \<and> length types = length (zip_star table))"
  using detect_types_when_blob_accepts[OF sampled_cells_blob[OF assms]] sampled_cells_blob[OF assms]
  by simp

theorem detect_types_total_witness:
  "sampled_table [[[0xDCFF, 0x41], []]]
   \<and> blob_caster py3_ascii [0xDCFF, 0x41]
   \<and> (\<exists>types. detect_types py3_ascii [[[0xDCFF, 0x41], []]] = Inr types
          \<and> length types = length (zip_star [[[0xDCFF, 0x41], [] :: pystr]]))"
proof -
  have h: "sampled_table [[[0xDCFF, 0x41], []]]"
    by (simp add: sampled_table_def surrogateescaped_def)
  note t = detect_types_total[of py3_ascii "[[[0xDCFF, 0x41], []]]", OF h]
  from t have "\<forall>row\<in>set [[[0xDCFF, 0x41], []]]. \<forall>v\<in>set row. blob_caster py3_ascii v"
    by (rule conjunct1)
  then have b: "blob_caster py3_ascii [0xDCFF, 0x41]" by simp
  from t have c: "\<exists>types. detect_types py3_ascii [[[0xDCFF, 0x41], []]] = Inr types
          \<and> length types = length (zip_star [[[0xDCFF, 0x41], [] :: pystr]])"
    by (rule conjunct2)
  from h b c show ?thesis by (intro conjI)
qed

theorem detect_types_lone_surrogate:
  "\<not> blob_caster py3_ascii [0xD800]
   \<and> detect_types py3_ascii [[[0xD800]]] = Inl (CouldNotDetectType [[0xD800]])"
  by (simp add: detect_defs runtime_defs)

section \<open>Properties of table creation\<close>

lemma dedup_taken:
  "column \<in> set columns \<Longrightarrow>
     dedup word_column columns base column
       = dedup word_column columns (base + 1) (word_column @ [UNDERSCORE] @ str_of_nat (base + 1))"
  by (subst dedup.simps) simp

lemma dedup_free: "column \<notin> set columns \<Longrightarrow> dedup word_column columns base column = column"
  by (subst dedup.simps) simp

lemma dedup_unique: "dedup word_column columns base column \<notin> set columns"
  by (induction word_column columns base column rule: dedup.induct)
     (subst dedup.simps, simp)

lemma length_sanitize_loop:
  "length (sanitize_loop env ucolumns columns) = length ucolumns + length columns"
  by (induction columns arbitrary: ucolumns) (simp_all add: Let_def)

lemma distinct_sanitize_loop:
  "distinct ucolumns \<Longrightarrow> distinct (sanitize_loop env ucolumns columns)"
  by (induction columns arbitrary: ucolumns) (simp_all add: Let_def dedup_unique)

lemmas sanitize_defs = strip_underscores_def re_sub_nonword_def re_M_def re_U_def is_word_def
  UNDERSCORE_def str_def py3_ascii_def ascii_isalnum_def ascii_isalpha_def is_digit_def

lemma sanitize_example:
  "sanitize_loop py3_ascii []
     [str ''Red'', str ''Green'', str ''Red'', str ''Blue'', str ''Green'', str ''Green'']
   = [str ''Red'', str ''Green'', str ''Red_2'', str ''Blue'', str ''Green_2'', str ''Green_3'']"
  by (simp add: sanitize_defs dedup_taken dedup_free str_of_nat.simps)

text \<open>
  Claim C5. The column names are made of word characters by replacing every run of other
  characters with one underscore, trimmed of underscores at both ends, and made unique
  with the suffixes \<open>_2\<close>, \<open>_3\<close>, ... in order: the lemmas above give uniqueness and
  the documented example. The replacement itself stops early: \<open>re.M | re.U\<close> is passed
  where \<open>re.sub\<close> takes \<open>count\<close>, so only the first 40 runs are replaced. In a name
  with 41 runs the last one stays, and the column name keeps a character that is not a
  word character.
\<close>

theorem sanitize_stops_after_40_runs:
  "sanitize_loop py3_ascii []
     [str ''a-a-a-a-a-a-a-a-a-a-a-a-a-a-a-a-a-a-a-a-a-a-a-a-a-a-a-a-a-a-a-a-a-a-a-a-a-a-a-a-a-a'']
   = [str ''a_a_a_a_a_a_a_a_a_a_a_a_a_a_a_a_a_a_a_a_a_a_a_a_a_a_a_a_a_a_a_a_a_a_a_a_a_a_a_a_a-a'']
   \<and> \<not> is_word py3_ascii 45"
  by (simp add: sanitize_defs dedup_free)

lemma length_generated_columns: "length (generated_columns env tablename k) = k"
  by (simp add: generated_columns_def del: upt_Suc)

lemma length_column_names:
  "length (column_names env tablename types columns) =
     (case columns of
        None \<Rightarrow> length types
      | Some cs \<Rightarrow> if cs = [] then length types else length cs)"
proof (cases columns)
  case None
  then show ?thesis by (simp add: column_names_def length_generated_columns)
next
  case (Some cs)
  then show ?thesis
    by (cases cs)
       (simp_all add: column_names_def length_generated_columns length_sanitize_loop
          del: sanitize_loop.simps)
qed

lemma create_table_query_unfold:
  "create_table_query env tablename types columns if_not_exists =
     (if types = [] then Inl MustSpecifyTypes
      else Inr (str ''CREATE TABLE '' @ (if if_not_exists then str ''IF NOT EXISTS '' else [])
                @ quote_identifier tablename @ str '' ('' @ [NEWLINE] @ str ''  ''
                @ join (str '','' @ [NEWLINE] @ str ''  '')
                    (map (\<lambda>(c, t). quote_identifier c @ str '' '' @ t)
                       (zip (column_names env tablename types columns) types))
                @ [NEWLINE] @ str '')''))"
  by (simp add: create_table_query_def Let_def zip_map1 split_def comp_def)

text \<open>
  Claim C6, as amended. \<open>create_table\<close> raises before running any statement exactly when
  no type is given. It never compares the number of columns with the number of types:
  \<open>zip\<close> pairs names and types up to the shorter list, so the statement has
  \<open>min (len columns) (len types)\<close> clauses (\<open>len types\<close> when the names are generated),
  the \<open>i\<close>-th being the quoted \<open>i\<close>-th name, a space and the \<open>i\<close>-th type, joined by
  a comma and a line break.
\<close>

theorem create_table_checks_types_only:
  "(types = [] \<longrightarrow>
      create_table env eng c tablename types columns if_not_exists = (Inl MustSpecifyTypes, c))
   \<and> (types \<noteq> [] \<longrightarrow>
      (\<exists>clauses.
         create_table_query env tablename types columns if_not_exists
           = Inr (str ''CREATE TABLE '' @ (if if_not_exists then str ''IF NOT EXISTS '' else [])
                  @ quote_identifier tablename @ str '' ('' @ [NEWLINE] @ str ''  ''
                  @ join (str '','' @ [NEWLINE] @ str ''  '') clauses @ [NEWLINE] @ str '')'')
         \<and> length clauses =
             (case columns of
                None \<Rightarrow> length types
              | Some cs \<Rightarrow> if cs = [] then length types else min (length cs) (length types))
         \<and> (\<forall>i<length clauses.
               clauses ! i = quote_identifier (column_names env tablename types columns ! i)
                               @ str '' '' @ types ! i)))"
proof (intro conjI impI)
  assume "types = []"
  then show "create_table env eng c tablename types columns if_not_exists
               = (Inl MustSpecifyTypes, c)"
    by (simp add: create_table_def create_table_query_unfold)
next
  assume ne: "types \<noteq> []"
  let ?names = "column_names env tablename types columns"
  let ?clauses = "map (\<lambda>(c, t). quote_identifier c @ str '' '' @ t) (zip ?names types)"
  have q: "create_table_query env tablename types columns if_not_exists
           = Inr (str ''CREATE TABLE '' @ (if if_not_exists then str ''IF NOT EXISTS '' else [])
                  @ quote_identifier tablename @ str '' ('' @ [NEWLINE] @ str ''  ''
                  @ join (str '','' @ [NEWLINE] @ str ''  '') ?clauses @ [NEWLINE] @ str '')'')"
    using ne by (simp add: create_table_query_unfold)
  have l: "length ?clauses =
             (case columns of
                None \<Rightarrow> length types
              | Some cs \<Rightarrow> if cs = [] then length types else min (length cs) (length types))"
    by (simp add: length_column_names split: option.splits)
  have n: "\<forall>i<length ?clauses.
             ?clauses ! i = quote_identifier (?names ! i) @ str '' '' @ types ! i"
    by simp
  from q l n show "\<exists>clauses.
         create_table_query env tablename types columns if_not_exists
           = Inr (str ''CREATE TABLE '' @ (if if_not_exists then str ''IF NOT EXISTS '' else [])
                  @ quote_identifier tablename @ str '' ('' @ [NEWLINE] @ str ''  ''
                  @ join (str '','' @ [NEWLINE] @ str ''  '') clauses @ [NEWLINE] @ str '')'')
         \<and> length clauses =
             (case columns of
                None \<Rightarrow> length types
              | Some cs \<Rightarrow> if cs = [] then length types else min (length cs) (length types))
         \<and> (\<forall>i<length clauses.
               clauses ! i = quote_identifier (column_names env tablename types columns ! i)
                               @ str '' '' @ types ! i)"
    by blast
qed

lemmas create_defs = create_table_def create_table_query_def column_names_def execute_def is_dml_def
  bindings_engine_def fresh_dbc_def quote_identifier_def DQUOTE_def NEWLINE_def INTEGER_def
  TEXT_def

theorem create_table_arity_mismatch:
  "length [str ''a'', str ''b''] \<noteq> length [INTEGER]
   \<and> create_table py3_ascii bindings_engine fresh_dbc (str ''A'') [INTEGER]
        (Some [str ''a'', str ''b'']) True
     = (Inr (),
        \<lparr>committed =
           [(str ''CREATE TABLE IF NOT EXISTS '' @ [DQUOTE] @ str ''A'' @ [DQUOTE] @ str '' (''
               @ [NEWLINE] @ str ''  '' @ [DQUOTE] @ str ''a'' @ [DQUOTE] @ str '' INTEGER''
               @ [NEWLINE] @ str '')'', [])],
         pending = [], in_transaction = False\<rparr>)"
  by (simp add: create_defs sanitize_defs dedup_free)

theorem create_table_checks_types_only_witness:
  "create_table py3_ascii bindings_engine fresh_dbc (str ''A'') [] (Some [str ''a'']) True
     = (Inl MustSpecifyTypes, fresh_dbc)
   \<and> (\<exists>clauses.
         create_table_query py3_ascii (str ''A'') [INTEGER, TEXT] None True
           = Inr (str ''CREATE TABLE '' @ str ''IF NOT EXISTS ''
                  @ quote_identifier (str ''A'') @ str '' ('' @ [NEWLINE] @ str ''  ''
                  @ join (str '','' @ [NEWLINE] @ str ''  '') clauses @ [NEWLINE] @ str '')'')
         \<and> length clauses = 2
         \<and> clauses ! 0 = quote_identifier (str ''a1'') @ str '' '' @ INTEGER
         \<and> clauses ! 1 = quote_identifier (str ''a2'') @ str '' '' @ TEXT)"
proof -
  have names: "column_names py3_ascii (str ''A'') [INTEGER, TEXT] None = [str ''a1'', str ''a2'']"
    by (simp add: column_names_def generated_columns_def upt_rec str_of_nat.simps
          py3_ascii_def ascii_isalpha_def ascii_lower_def str_def)
  have a: "create_table py3_ascii bindings_engine fresh_dbc (str ''A'') [] (Some [str ''a'']) True
             = (Inl MustSpecifyTypes, fresh_dbc)"
    using create_table_checks_types_only
            [of "[]" py3_ascii bindings_engine fresh_dbc "str ''A''" "Some [str ''a'']" True]
    by simp
  have b: "[INTEGER, TEXT] \<noteq> []" by simp
  from create_table_checks_types_only
         [of "[INTEGER, TEXT]" py3_ascii bindings_engine fresh_dbc "str ''A''" None True] b
  obtain clauses where
    c: "create_table_query py3_ascii (str ''A'') [INTEGER, TEXT] None True
           = Inr (str ''CREATE TABLE '' @ str ''IF NOT EXISTS ''
                  @ quote_identifier (str ''A'') @ str '' ('' @ [NEWLINE] @ str ''  ''
                  @ join (str '','' @ [NEWLINE] @ str ''  '') clauses @ [NEWLINE] @ str '')'')"
    and l: "length clauses = 2"
    and n: "\<forall>i<length clauses.
               clauses ! i = quote_identifier (column_names py3_ascii (str ''A'') [INTEGER, TEXT] None ! i)
                               @ str '' '' @ [INTEGER, TEXT] ! i"
    by auto
  from n l names have "clauses ! 0 = quote_identifier (str ''a1'') @ str '' '' @ INTEGER"
    and "clauses ! 1 = quote_identifier (str ''a2'') @ str '' '' @ TEXT"
    by auto
  with a c l show ?thesis by blast
qed

section \<open>Properties of the connection and of the insertion loop\<close>

lemma is_dml_insert_query: "is_dml (insert_query tablename n)"
  by (simp add: is_dml_def insert_query_def str_def)

lemma not_is_dml_create:
  "create_table_query env tablename types columns ine = Inr query \<Longrightarrow> \<not> is_dml query"
  by (auto simp: create_table_query_def Let_def is_dml_def str_def split: if_splits)

lemma execute_dml:
  assumes "is_dml query"
  shows "execute eng c query ps =
     (case eng (committed c @ pending c) (query, ps) of
        Some args \<Rightarrow> (Some args, c\<lparr>in_transaction := True\<rparr>)
      | None \<Rightarrow> (None, c\<lparr>in_transaction := True, pending := pending c @ [(query, ps)]\<rparr>))"
  using assms by (simp add: execute_def Let_def split: option.splits)


lemma execute_ddl_in_transaction:
  assumes "\<not> is_dml query" and "in_transaction c" and "eng (committed c @ pending c) (query, ps) = None"
  shows "execute eng c query ps = (None, c\<lparr>pending := pending c @ [(query, ps)]\<rparr>)"
  using assms by (simp add: execute_def Let_def)

lemma length_accepted_rows: "length (accepted_rows eng query h rows) \<le> length rows"
  by (induction rows arbitrary: h) (auto split: option.splits intro: le_SucI)

lemma accepted_rows_all:
  "accepted_rows eng query h (row # rest) = row # rest \<longleftrightarrow>
     eng h (query, bind_parameters row) = None
     \<and> accepted_rows eng query (h @ [(query, bind_parameters row)]) rest = rest"
proof (cases "eng h (query, bind_parameters row)")
  case None
  then show ?thesis by simp
next
  case (Some args)
  have "length (accepted_rows eng query h rest) \<le> length rest" by (rule length_accepted_rows)
  then have "accepted_rows eng query h rest \<noteq> row # rest" by auto
  with Some show ?thesis by simp
qed

lemma set_accepted_rows: "set (accepted_rows eng query h rows) \<subseteq> set rows"
  by (induction rows arbitrary: h) (auto split: option.splits)

text \<open>The loop under \<open>ignore_errors\<close>: it never raises and inserts the accepted rows.\<close>

lemma insert_rows_ignore:
  assumes "is_dml query" and "ignore_errors self"
  shows "\<exists>log'. insert_rows eng self fname query lineno rows c log =
           (Inr (),
            c\<lparr>in_transaction := in_transaction c \<or> rows \<noteq> [],
              pending := pending c @ map (\<lambda>row. (query, bind_parameters row))
                                       (accepted_rows eng query (committed c @ pending c) rows)\<rparr>,
            log')"
proof (induction rows arbitrary: c log lineno)
  case Nil
  show ?case by simp
next
  case (Cons row rest)
  show ?case
  proof (cases "eng (committed c @ pending c) (query, bind_parameters row)")
    case None
    let ?c = "c\<lparr>in_transaction := True, pending := pending c @ [(query, bind_parameters row)]\<rparr>"
    from Cons[of "lineno + 1" ?c log] obtain log' where
      "insert_rows eng self fname query (lineno + 1) rest ?c log =
         (Inr (),
          ?c\<lparr>in_transaction := in_transaction ?c \<or> rest \<noteq> [],
             pending := pending ?c @ map (\<lambda>row. (query, bind_parameters row))
                                      (accepted_rows eng query (committed ?c @ pending ?c) rest)\<rparr>,
          log')" by blast
    with None assms show ?thesis by (simp add: execute_dml Let_def)
  next
    case (Some args)
    let ?c = "c\<lparr>in_transaction := True\<rparr>"
    let ?log = "if log_warnings self then log @ [add_suffix fname lineno args] else log"
    from Cons[of "lineno + 1" ?c ?log] obtain log' where
      "insert_rows eng self fname query (lineno + 1) rest ?c ?log =
         (Inr (),
          ?c\<lparr>in_transaction := in_transaction ?c \<or> rest \<noteq> [],
             pending := pending ?c @ map (\<lambda>row. (query, bind_parameters row))
                                      (accepted_rows eng query (committed ?c @ pending ?c) rest)\<rparr>,
          log')" by blast
    with Some assms show ?thesis by (auto simp: execute_dml Let_def)
  qed
qed

text \<open>The loop without \<open>ignore_errors\<close>: it raises at the first row the engine rejects.\<close>

lemma insert_rows_raise:
  assumes "is_dml query" and "\<not> ignore_errors self"
    and "accepted_rows eng query (committed c @ pending c) pre = pre"
    and "eng (committed c @ pending c @ map (\<lambda>row. (query, bind_parameters row)) pre)
           (query, bind_parameters row) = Some args"
  shows "insert_rows eng self fname query lineno (pre @ row # post) c log =
           (Inl (SqlError (add_suffix fname (lineno + length pre) args)),
            c\<lparr>in_transaction := True,
              pending := pending c @ map (\<lambda>row. (query, bind_parameters row)) pre\<rparr>,
            log)"
  using assms(3,4)
proof (induction pre arbitrary: c lineno)
  case Nil
  with assms(1,2) show ?case by (simp add: execute_dml Let_def)
next
  case (Cons r pre)
  let ?c = "c\<lparr>in_transaction := True, pending := pending c @ [(query, bind_parameters r)]\<rparr>"
  from Cons.prems(1)[unfolded accepted_rows_all]
  have a: "eng (committed c @ pending c) (query, bind_parameters r) = None"
    and b: "accepted_rows eng query (committed ?c @ pending ?c) pre = pre"
    by simp_all
  from Cons.prems(2)
  have c: "eng (committed ?c @ pending ?c @ map (\<lambda>row. (query, bind_parameters row)) pre)
             (query, bind_parameters row) = Some args" by simp
  from Cons.IH[OF b c, of "lineno + 1"] a assms(1) show ?case
    by (simp add: execute_dml Let_def)
qed

lemma insert_rows_all_accepted:
  assumes "is_dml query"
    and "accepted_rows eng query (committed c @ pending c) rows = rows"
  shows "insert_rows eng self fname query lineno rows c log =
           (Inr (),
            c\<lparr>in_transaction := in_transaction c \<or> rows \<noteq> [],
              pending := pending c @ map (\<lambda>row. (query, bind_parameters row)) rows\<rparr>,
            log)"
  using assms(2)
proof (induction rows arbitrary: c lineno)
  case Nil
  show ?case by simp
next
  case (Cons r rows)
  let ?c = "c\<lparr>in_transaction := True, pending := pending c @ [(query, bind_parameters r)]\<rparr>"
  from Cons.prems[unfolded accepted_rows_all]
  have a: "eng (committed c @ pending c) (query, bind_parameters r) = None"
    and b: "accepted_rows eng query (committed ?c @ pending ?c) rows = rows"
    by simp_all
  from Cons.IH[OF b, of "lineno + 1"] a assms(1) show ?case
    by (simp add: execute_dml Let_def)
qed

text \<open>Under either policy the loop leaves what is committed alone and adds only inserts of
  rows of the file.\<close>

lemma insert_rows_pending:
  assumes "is_dml query"
    and "insert_rows eng self fname query lineno rows c log = (r, c', log')"
  shows "committed c' = committed c
         \<and> (\<exists>rows'. set rows' \<subseteq> set rows
               \<and> pending c' = pending c @ map (\<lambda>row. (query, bind_parameters row)) rows')"
  using assms(2)
proof (induction rows arbitrary: c log lineno)
  case Nil
  then show ?case by auto
next
  case (Cons row rest)
  show ?case
  proof (cases "eng (committed c @ pending c) (query, bind_parameters row)")
    case None
    let ?c = "c\<lparr>in_transaction := True, pending := pending c @ [(query, bind_parameters row)]\<rparr>"
    from Cons.prems None assms(1)
    have "insert_rows eng self fname query (lineno + 1) rest ?c log = (r, c', log')"
      by (simp add: execute_dml Let_def)
    from Cons.IH[OF this] obtain rows' where
      "committed c' = committed c" and "set rows' \<subseteq> set rest"
      and "pending c' = pending c @ map (\<lambda>row. (query, bind_parameters row)) (row # rows')"
      by auto
    then show ?thesis by (intro conjI exI[of _ "row # rows'"]) auto
  next
    case (Some args)
    let ?c = "c\<lparr>in_transaction := True\<rparr>"
    show ?thesis
    proof (cases "ignore_errors self")
      case False
      with Cons.prems Some assms(1) have "c' = ?c" by (simp add: execute_dml Let_def)
      then show ?thesis by (intro conjI exI[of _ "[]"]) auto
    next
      case True
      let ?log = "if log_warnings self then log @ [add_suffix fname lineno args] else log"
      from Cons.prems Some assms(1) True
      have "insert_rows eng self fname query (lineno + 1) rest ?c ?log = (r, c', log')"
        by (simp add: execute_dml Let_def split: if_splits)
      from Cons.IH[OF this] obtain rows' where
        "committed c' = committed c" and "set rows' \<subseteq> set rest"
        and "pending c' = pending c @ map (\<lambda>row. (query, bind_parameters row)) rows'"
        by auto
      then show ?thesis by (intro conjI exI[of _ rows']) auto
    qed
  qed
qed

section \<open>Properties of loading a file\<close>

lemma sample_schema_success:
  assumes "detect_types env sample = Inr tw" and "detect_types env (drop 1 sample) = Inr ts"
  shows "sample_schema env sample =
           (if ts \<noteq> tw then Inr (True, (if ts \<noteq> [] then ts else tw), 2, Some (hd sample))
            else Inr (False, tw, 1, None))"
    and "ts \<noteq> tw \<Longrightarrow> sample \<noteq> []"
proof -
  show ne: "sample \<noteq> []" if "ts \<noteq> tw"
  proof
    assume "sample = []"
    with assms have "ts = tw" by simp
    with that show False by simp
  qed
  show "sample_schema env sample =
           (if ts \<noteq> tw then Inr (True, (if ts \<noteq> [] then ts else tw), 2, Some (hd sample))
            else Inr (False, tw, 1, None))"
  proof (cases "ts \<noteq> tw")
    case True
    from ne[OF True] obtain row0 rest where "sample = row0 # rest" by (cases sample) auto
    with True assms show ?thesis by (simp add: sample_schema_def Let_def)
  next
    case False
    with assms show ?thesis by (simp add: sample_schema_def Let_def)
  qed
qed

lemma sample_schema_line_number:
  assumes "sample_schema env sample = Inr (has_header, types, fln, columns)"
  shows "fln = (if has_header then 2 else 1)"
  using assms
  by (auto simp: sample_schema_def Let_def split: sum.splits if_splits list.splits)

lemma create_table_effect:
  assumes "create_table env eng c tablename types columns ine = (Inr u, c1)"
  shows "\<exists>query. create_table_query env tablename types columns ine = Inr query
           \<and> c1 = (if in_transaction c then c\<lparr>pending := pending c @ [(query, [])]\<rparr>
                   else c\<lparr>committed := committed c @ [(query, [])]\<rparr>)"
proof (cases "create_table_query env tablename types columns ine")
  case (Inl e)
  with assms show ?thesis by (simp add: create_table_def)
next
  case (Inr query)
  from not_is_dml_create[OF Inr] have nd: "\<not> is_dml query" .
  from assms Inr nd show ?thesis
    by (auto simp: create_table_def execute_def Let_def split: option.splits if_splits)
qed

lemma loadfile_unfold:
  assumes "sniffable file"
    and "sample_schema env (take 20 (records file)) = Inr (has_header, types, fln, columns)"
  shows "loadfile env eng self file tablename flag =
           dbc_exit (load_body env eng self file tablename flag (take 20 (records file))
                       types columns fln
                       (if has_header then drop 1 (records file) else records file))"
  using assms by (simp add: loadfile_def Let_def)

lemma load_body_unfold:
  assumes "(if flag then create_table env eng (dbc self) tablename types columns True
            else (Inr (), dbc self)) = (Inr (), c1)"
  shows "load_body env eng self file tablename flag (row0 # rest) types columns fln rowgen =
           insert_rows eng self (filename file) (insert_query tablename (length row0))
             fln rowgen c1 []"
  using assms by (simp add: load_body_def)

lemma replicate_numeral: "replicate (numeral k) x = x # replicate (pred_numeral k) x"
  by (simp add: numeral_eq_Suc)

lemma test_file_sample:
  "take 20 (records test_file)
     = [str ''A'', str ''B'', str ''C''] # replicate 19 [str ''1'', str ''2'', str ''3'']"
  by (simp add: test_file_def replicate_numeral)

lemma detect_types_test_table:
  "detect_types py3_ascii ([str ''A'', str ''B'', str ''C''] # replicate 19 [str ''1'', str ''2'', str ''3''])
     = Inr [TEXT, TEXT, TEXT]"
  "detect_types py3_ascii (replicate 19 [str ''1'', str ''2'', str ''3''])
     = Inr [INTEGER, INTEGER, INTEGER]"
  by (simp_all add: replicate_numeral detect_defs runtime_defs)

text \<open>
  Claim C4, as amended. \<open>loadfile\<close> has no \<open>return\<close> statement: a call that does not
  raise returns \<open>None\<close>, whatever number of rows it inserted.
\<close>

theorem loadfile_returns_None:
  "returned (loadfile env eng self file tablename flag) = Inr PyNone
   \<or> (\<exists>e. returned (loadfile env eng self file tablename flag) = Inl e)"
  by (auto simp: loadfile_def dbc_exit_def Let_def split: sum.splits prod.splits)

lemma loadfile_insert_phase:
  assumes "sniffable file"
    and "sample_schema env (take 20 (records file)) = Inr (has_header, types, fln, columns)"
    and "(if flag then create_table env eng (dbc self) tablename types columns True
          else (Inr (), dbc self)) = (Inr (), c1)"
    and "records file = row0 # rest"
  shows "loadfile env eng self file tablename flag =
           dbc_exit (insert_rows eng self (filename file) (insert_query tablename (length row0))
                       (if has_header then 2 else 1)
                       (if has_header then rest else records file) c1 [])"
proof -
  have t: "take 20 (records file) = row0 # take 19 rest" using assms(4) by simp
  have f: "fln = (if has_header then 2 else 1)" by (rule sample_schema_line_number[OF assms(2)])
  have d: "drop 1 (records file) = rest" using assms(4) by simp
  show ?thesis
    unfolding loadfile_unfold[OF assms(1,2)] t load_body_unfold[OF assms(3)] f d ..
qed

text \<open>
  Claim C3, as amended. Once the schema is fixed and the table statement has run, a load
  without \<open>ignore_errors\<close> that meets a row the engine rejects raises the engine's
  exception with \<open>" (<file name>, row <n>) "\<close> appended to its last argument, \<open>n\<close> being
  the 1-based position of that row among the records of the file, and the connection is
  rolled back: no insert of the call persists. What was committed when the table statement
  had run stays committed; when no transaction was open at the call, that includes the
  CREATE TABLE statement itself, which the driver ran outside any transaction. With
  \<open>ignore_errors\<close> the call returns, commits, and the statements in effect are those
  before the inserts followed by exactly the inserts of the rows the engine accepted.
\<close>

theorem loadfile_row_failure_policy:
  assumes "sniffable file"
    and "sample_schema env (take 20 (records file)) = Inr (has_header, types, fln, columns)"
    and "(if flag then create_table env eng (dbc self) tablename types columns True
          else (Inr (), dbc self)) = (Inr (), c1)"
    and "records file = row0 # rest"
  shows "(\<not> ignore_errors self \<longrightarrow>
            (\<forall>pre row post args.
               (if has_header then rest else records file) = pre @ row # post
               \<and> accepted_rows eng (insert_query tablename (length row0))
                     (committed c1 @ pending c1) pre = pre
               \<and> eng (committed c1 @ pending c1
                       @ map (\<lambda>r. (insert_query tablename (length row0), bind_parameters r)) pre)
                    (insert_query tablename (length row0), bind_parameters row) = Some args
               \<longrightarrow>
               returned (loadfile env eng self file tablename flag)
                 = Inl (SqlError
                     (butlast (if args = [] then [[]] else args)
                      @ [last (if args = [] then [[]] else args)
                         @ str '' ('' @ filename file @ str '', row ''
                         @ str_of_nat (length pre + (if has_header then 2 else 1)) @ str '') '']))
               \<and> records file ! (length pre + (if has_header then 2 else 1) - 1) = row
               \<and> dbc_after (loadfile env eng self file tablename flag)
                   = \<lparr>committed = committed c1, pending = [], in_transaction = False\<rparr>))
       \<and> (ignore_errors self \<longrightarrow>
            returned (loadfile env eng self file tablename flag) = Inr PyNone
            \<and> dbc_after (loadfile env eng self file tablename flag)
                = \<lparr>committed = committed c1 @ pending c1
                      @ map (\<lambda>r. (insert_query tablename (length row0), bind_parameters r))
                          (accepted_rows eng (insert_query tablename (length row0))
                             (committed c1 @ pending c1)
                             (if has_header then rest else records file)),
                   pending = [], in_transaction = False\<rparr>)
       \<and> (flag \<longrightarrow> \<not> in_transaction (dbc self) \<longrightarrow>
            (\<exists>query. create_table_query env tablename types columns True = Inr query
                \<and> committed c1 = committed (dbc self) @ [(query, [])]))"
proof (intro conjI impI allI)
  let ?q = "insert_query tablename (length row0)"
  let ?rowgen = "if has_header then rest else records file"
  let ?n = "if has_header then 2 else 1 :: nat"
  note lf = loadfile_insert_phase[OF assms]
  note dml = is_dml_insert_query[of tablename "length row0"]
  {
    fix pre row post args
    assume ie: "\<not> ignore_errors self"
      and h: "?rowgen = pre @ row # post
               \<and> accepted_rows eng ?q (committed c1 @ pending c1) pre = pre
               \<and> eng (committed c1 @ pending c1 @ map (\<lambda>r. (?q, bind_parameters r)) pre)
                    (?q, bind_parameters row) = Some args"
    from h have rg: "?rowgen = pre @ row # post" by blast
    from h have ir: "insert_rows eng self (filename file) ?q ?n (pre @ row # post) c1 [] =
           (Inl (SqlError (add_suffix (filename file) (?n + length pre) args)),
            c1\<lparr>in_transaction := True,
               pending := pending c1 @ map (\<lambda>r. (?q, bind_parameters r)) pre\<rparr>,
            [])"
      by (intro insert_rows_raise[OF dml ie]) blast+
    have lf': "loadfile env eng self file tablename flag
                 = dbc_exit (insert_rows eng self (filename file) ?q ?n (pre @ row # post) c1 [])"
      using lf rg by simp
    show "returned (loadfile env eng self file tablename flag)
            = Inl (SqlError
                (butlast (if args = [] then [[]] else args)
                 @ [last (if args = [] then [[]] else args)
                    @ str '' ('' @ filename file @ str '', row ''
                    @ str_of_nat (length pre + ?n) @ str '') '']))"
      unfolding lf' ir by (simp add: dbc_exit_def add_suffix_def Let_def add.commute)
    show "records file ! (length pre + ?n - 1) = row"
    proof (cases has_header)
      case True
      with rg have "rest = pre @ row # post" by simp
      with True assms(4) show ?thesis by simp
    next
      case False
      with rg have "records file = pre @ row # post" by simp
      with False show ?thesis by simp
    qed
    show "dbc_after (loadfile env eng self file tablename flag)
            = \<lparr>committed = committed c1, pending = [], in_transaction = False\<rparr>"
      unfolding lf' ir by (simp add: dbc_exit_def rollback_def)
  }
  {
    assume ie: "ignore_errors self"
    from insert_rows_ignore[OF dml ie, of eng "filename file" ?n ?rowgen c1 "[]"]
    obtain log' where ir: "insert_rows eng self (filename file) ?q ?n ?rowgen c1 [] =
           (Inr (),
            c1\<lparr>in_transaction := in_transaction c1 \<or> ?rowgen \<noteq> [],
               pending := pending c1 @ map (\<lambda>r. (?q, bind_parameters r))
                            (accepted_rows eng ?q (committed c1 @ pending c1) ?rowgen)\<rparr>,
            log')" by blast
    show "returned (loadfile env eng self file tablename flag) = Inr PyNone"
      unfolding lf ir by (simp add: dbc_exit_def)
    show "dbc_after (loadfile env eng self file tablename flag)
            = \<lparr>committed = committed c1 @ pending c1
                  @ map (\<lambda>r. (?q, bind_parameters r))
                      (accepted_rows eng ?q (committed c1 @ pending c1) ?rowgen),
               pending = [], in_transaction = False\<rparr>"
      unfolding lf ir by (simp add: dbc_exit_def commit_def)
  }
  {
    assume fl: flag and nt: "\<not> in_transaction (dbc self)"
    from assms(3) fl have "create_table env eng (dbc self) tablename types columns True = (Inr (), c1)"
      by simp
    from create_table_effect[OF this] nt
    show "\<exists>query. create_table_query env tablename types columns True = Inr query
            \<and> committed c1 = committed (dbc self) @ [(query, [])]"
      by auto
  }
qed

section \<open>The example engine\<close>

lemma count_placeholders: "count_list (join (str '', '') (replicate n (str ''?''))) 63 = n"
proof (induction n)
  case 0
  show ?case by simp
next
  case (Suc n)
  show ?case
  proof (cases n)
    case 0
    then show ?thesis by (simp add: str_def)
  next
    case (Suc m)
    with Suc.IH show ?thesis by (simp add: str_def)
  qed
qed

lemma count_insert_query:
  assumes "63 \<notin> set tablename"
  shows "count_list (insert_query tablename n) 63 = n"
proof -
  have a: "count_list (str ''INSERT INTO '') 63 = 0" "count_list (str '' VALUES ('') 63 = 0"
    "count_list (str '')'') 63 = 0"
    by (simp_all add: str_def)
  from assms have b: "count_list tablename 63 = 0" by (simp add: count_list_0_iff)
  show ?thesis by (simp add: insert_query_def a b count_placeholders)
qed

lemma take_insert_query: "take 12 (insert_query tablename n) = str ''INSERT INTO ''"
  by (simp add: insert_query_def str_def)

lemma insert_target_insert_query:
  assumes "32 \<notin> set tablename"
  shows "insert_target (insert_query tablename n) = tablename"
proof -
  have "drop 12 (insert_query tablename n)
          = tablename @ 32 # str ''VALUES ('' @ join (str '', '') (replicate n (str ''?''))
              @ str '')''"
    by (simp add: insert_query_def str_def)
  moreover have "\<forall>c\<in>set tablename. c \<noteq> 32" using assms by auto
  ultimately show ?thesis by (simp add: insert_target_def takeWhile_append2)
qed

lemma bindings_engine_insert:
  assumes "32 \<notin> set tablename" and "63 \<notin> set tablename"
  shows "bindings_engine history (insert_query tablename n, ps) =
           (if \<not> table_created history tablename
            then Some [str ''no such table: '' @ tablename]
            else if n = length ps then None
            else Some [str ''Incorrect number of bindings supplied. The current statement uses ''
                       @ str_of_nat n @ str '', and there are '' @ str_of_nat (length ps)
                       @ str '' supplied.''])"
  by (simp add: bindings_engine_def take_insert_query insert_target_insert_query[OF assms(1)]
        count_insert_query[OF assms(2)])

lemma table_created_append:
  "table_created (h @ h') tablename = (table_created h tablename \<or> table_created h' tablename)"
  by (simp add: table_created_def)

lemma accepted_rows_bindings_engine:
  assumes "32 \<notin> set tablename" and "63 \<notin> set tablename"
    and "table_created h tablename"
  shows "accepted_rows bindings_engine (insert_query tablename n) h rows
           = filter (\<lambda>row. n = length row) rows"
  using assms(3)
proof (induction rows arbitrary: h)
  case Nil
  show ?case by simp
next
  case (Cons row rows)
  let ?stmt = "(insert_query tablename n, bind_parameters row)"
  have l: "length (bind_parameters row) = length row" by (simp add: bind_parameters_def)
  from Cons.prems have "table_created (h @ [?stmt]) tablename"
    by (simp add: table_created_append)
  from Cons.IH[OF this]
  have a: "accepted_rows bindings_engine (insert_query tablename n) (h @ [?stmt]) rows
             = filter (\<lambda>row. n = length row) rows" .
  have e: "bindings_engine h ?stmt = (if n = length row then None
             else Some [str ''Incorrect number of bindings supplied. The current statement uses ''
                        @ str_of_nat n @ str '', and there are '' @ str_of_nat (length row)
                        @ str '' supplied.''])"
    using Cons.prems l by (simp add: bindings_engine_insert[OF assms(1,2)])
  show ?case
  proof (cases "n = length row")
    case True
    with e have "bindings_engine h ?stmt = None" by simp
    then have "accepted_rows bindings_engine (insert_query tablename n) h (row # rows)
                 = row # accepted_rows bindings_engine (insert_query tablename n) (h @ [?stmt]) rows"
      by simp
    with a True show ?thesis by simp
  next
    case False
    with e obtain args where "bindings_engine h ?stmt = Some args" by simp
    then have "accepted_rows bindings_engine (insert_query tablename n) h (row # rows)
                 = accepted_rows bindings_engine (insert_query tablename n) h rows"
      by simp
    with Cons.IH[OF Cons.prems] False show ?thesis by simp
  qed
qed

section \<open>The test file\<close>

lemma test_file_schema:
  "sample_schema py3_ascii (take 20 (records test_file))
     = Inr (True, [INTEGER, INTEGER, INTEGER], 2, Some [str ''A'', str ''B'', str ''C''])"
proof -
  have b: "detect_types py3_ascii (take 20 (records test_file)) = Inr [TEXT, TEXT, TEXT]"
    by (simp only: test_file_sample detect_types_test_table)
  have c: "detect_types py3_ascii (drop 1 (take 20 (records test_file)))
             = Inr [INTEGER, INTEGER, INTEGER]"
    by (simp only: test_file_sample detect_types_test_table drop_Suc_Cons drop_0 One_nat_def)
  have d: "[INTEGER, INTEGER, INTEGER] \<noteq> [TEXT, TEXT, TEXT]"
    by (simp add: INTEGER_def TEXT_def str_def)
  have h: "hd (take 20 (records test_file)) = [str ''A'', str ''B'', str ''C'']"
    by (simp add: test_file_sample)
  from sample_schema_success(1)[OF b c] d h show ?thesis by simp
qed

lemma test_file_records:
  "records test_file = [str ''A'', str ''B'', str ''C'']
     # (replicate 20 [str ''1'', str ''2'', str ''3''] @ [str ''7'', str ''8''] # [])"
  by (simp add: test_file_def)

lemma test_file_create:
  "(if True then create_table py3_ascii bindings_engine fresh_dbc (str ''A'')
                   [INTEGER, INTEGER, INTEGER] (Some [str ''A'', str ''B'', str ''C'']) True
    else (Inr (), fresh_dbc))
   = (Inr (), \<lparr>committed = [test_table_statement], pending = [], in_transaction = False\<rparr>)"
  by (simp add: create_defs sanitize_defs dedup_free test_table_statement_def)

lemma test_file_query:
  "insert_query (str ''A'') (length [a, b, c]) = str ''INSERT INTO A VALUES (?, ?, ?)''"
  by (simp add: insert_query_def str_def)

lemma test_file_name: "filename test_file = str ''test.csv''"
  by (simp add: test_file_def)

lemma test_file_query3: "insert_query (str ''A'') 3 = str ''INSERT INTO A VALUES (?, ?, ?)''"
  by (simp add: insert_query_def str_def eval_nat_numeral)

lemma test_table_name: "32 \<notin> set (str ''A'')" "63 \<notin> set (str ''A'')"
  by (simp_all add: str_def)

lemma test_table_created: "table_created (test_table_statement # h) (str ''A'')"
  by (simp add: table_created_def test_table_statement_def quote_identifier_def DQUOTE_def
        str_def)

lemma test_file_accept:
  "bindings_engine (test_table_statement # h)
     (str ''INSERT INTO A VALUES (?, ?, ?)'', [p1, p2, p3]) = None"
  using bindings_engine_insert[OF test_table_name, of "test_table_statement # h" 3 "[p1, p2, p3]",
          unfolded test_file_query3]
  by (simp add: test_table_created)

lemma test_file_reject:
  "bindings_engine (test_table_statement # h)
     (str ''INSERT INTO A VALUES (?, ?, ?)'', [p1, p2])
   = Some [str ''Incorrect number of bindings supplied. The current statement uses 3, and there are 2 supplied.'']"
proof -
  have m: "str ''Incorrect number of bindings supplied. The current statement uses ''
             @ str_of_nat 3 @ str '', and there are '' @ str_of_nat (length [p1, p2])
             @ str '' supplied.''
           = str ''Incorrect number of bindings supplied. The current statement uses 3, and there are 2 supplied.''"
    by (simp add: str_of_nat.simps str_def)
  show ?thesis
    using bindings_engine_insert[OF test_table_name, of "test_table_statement # h" 3 "[p1, p2]",
            unfolded test_file_query3 m]
    by (simp add: test_table_created)
qed

lemma test_file_accepted:
  "accepted_rows bindings_engine (str ''INSERT INTO A VALUES (?, ?, ?)'')
     (test_table_statement # h) rows
   = filter (\<lambda>row. 3 = length row) rows"
  using accepted_rows_bindings_engine[OF test_table_name test_table_created, of 3 h rows]
  by (simp only: test_file_query3)

lemma test_file_bind:
  "bind_parameters [str ''1'', str ''2'', str ''3''] = snd test_insert_statement"
  by (simp add: bind_parameters_def test_insert_statement_def str_def)

text \<open>The two tests of the repository, run in the model.\<close>

lemma test_ignore_errors_False:
  "loadfile py3_ascii bindings_engine
     \<lparr>dbc = fresh_dbc, ignore_errors = False, log_warnings = False\<rparr> test_file (str ''A'') True
   = \<lparr>returned = Inl (SqlError
          [str ''Incorrect number of bindings supplied. The current statement uses 3, and there are 2 supplied. (test.csv, row 22) '']),
      dbc_after = \<lparr>committed = [test_table_statement], pending = [], in_transaction = False\<rparr>,
      logged = []\<rparr>"
proof -
  let ?self = "\<lparr>dbc = fresh_dbc, ignore_errors = False, log_warnings = False\<rparr>"
  let ?c1 = "\<lparr>committed = [test_table_statement], pending = [], in_transaction = False\<rparr>"
  let ?q = "str ''INSERT INTO A VALUES (?, ?, ?)''"
  let ?r = "[str ''1'', str ''2'', str ''3'']"
  have cr: "(if True then create_table py3_ascii bindings_engine (dbc ?self) (str ''A'')
                   [INTEGER, INTEGER, INTEGER] (Some [str ''A'', str ''B'', str ''C'']) True
             else (Inr (), dbc ?self)) = (Inr (), ?c1)"
    using test_file_create by simp
  have sn: "sniffable test_file" by (simp add: test_file_def)
  have lf: "loadfile py3_ascii bindings_engine ?self test_file (str ''A'') True
      = dbc_exit (insert_rows bindings_engine ?self (str ''test.csv'') ?q 2
                    (replicate 20 ?r @ [str ''7'', str ''8''] # []) ?c1 [])"
    using loadfile_insert_phase[OF sn test_file_schema cr test_file_records]
    by (simp only: test_file_query test_file_name if_True)
  have dml: "is_dml ?q"
    using is_dml_insert_query[of "str ''A''" "length [a, b, c]" for a b c :: pystr]
    by (simp only: test_file_query)
  have ie: "\<not> ignore_errors ?self" by simp
  have acc: "accepted_rows bindings_engine ?q (committed ?c1 @ pending ?c1) (replicate 20 ?r)
               = replicate 20 ?r"
    by (simp add: test_file_accepted)
  have rej: "bindings_engine
               (committed ?c1 @ pending ?c1 @ map (\<lambda>row. (?q, bind_parameters row)) (replicate 20 ?r))
               (?q, bind_parameters [str ''7'', str ''8''])
             = Some [str ''Incorrect number of bindings supplied. The current statement uses 3, and there are 2 supplied.'']"
    by (simp add: test_file_reject bind_parameters_def)
  have sx: "add_suffix (str ''test.csv'') (2 + length (replicate 20 ?r))
              [str ''Incorrect number of bindings supplied. The current statement uses 3, and there are 2 supplied.'']
            = [str ''Incorrect number of bindings supplied. The current statement uses 3, and there are 2 supplied. (test.csv, row 22) '']"
    by (simp add: add_suffix_def str_of_nat.simps str_def)
  show ?thesis
    unfolding lf insert_rows_raise[OF dml ie acc rej] sx
    by (simp add: dbc_exit_def rollback_def)
qed

lemma test_ignore_errors_True:
  "loadfile py3_ascii bindings_engine
     \<lparr>dbc = fresh_dbc, ignore_errors = True, log_warnings = False\<rparr> test_file (str ''A'') True
   = \<lparr>returned = Inr PyNone,
      dbc_after = \<lparr>committed = test_table_statement # replicate 20 test_insert_statement,
                     pending = [], in_transaction = False\<rparr>,
      logged = []\<rparr>"
proof -
  let ?self = "\<lparr>dbc = fresh_dbc, ignore_errors = True, log_warnings = False\<rparr>"
  let ?c1 = "\<lparr>committed = [test_table_statement], pending = [], in_transaction = False\<rparr>"
  let ?q = "str ''INSERT INTO A VALUES (?, ?, ?)''"
  let ?r = "[str ''1'', str ''2'', str ''3'']"
  let ?rows = "replicate 20 ?r @ [str ''7'', str ''8''] # []"
  have cr: "(if True then create_table py3_ascii bindings_engine (dbc ?self) (str ''A'')
                   [INTEGER, INTEGER, INTEGER] (Some [str ''A'', str ''B'', str ''C'']) True
             else (Inr (), dbc ?self)) = (Inr (), ?c1)"
    using test_file_create by simp
  have sn: "sniffable test_file" by (simp add: test_file_def)
  have lf: "loadfile py3_ascii bindings_engine ?self test_file (str ''A'') True
      = dbc_exit (insert_rows bindings_engine ?self (str ''test.csv'') ?q 2 ?rows ?c1 [])"
    using loadfile_insert_phase[OF sn test_file_schema cr test_file_records]
    by (simp only: test_file_query test_file_name if_True)
  have dml: "is_dml ?q"
    using is_dml_insert_query[of "str ''A''" "length [a, b, c]" for a b c :: pystr]
    by (simp only: test_file_query)
  have acc: "accepted_rows bindings_engine ?q (committed ?c1 @ pending ?c1) ?rows = replicate 20 ?r"
    by (simp add: test_file_accepted)
  have ir: "insert_rows bindings_engine ?self (str ''test.csv'') ?q 2 ?rows ?c1 []
        = (Inr (), ?c1\<lparr>in_transaction := True,
                        pending := map (\<lambda>row. (?q, bind_parameters row)) (replicate 20 ?r)\<rparr>, [])"
  proof -
    have a: "insert_rows bindings_engine ?self (str ''test.csv'') ?q 2 (replicate 20 ?r @ [str ''7'', str ''8''] # []) ?c1 []
        = insert_rows bindings_engine ?self (str ''test.csv'') ?q 22 [[str ''7'', str ''8'']]
            (?c1\<lparr>in_transaction := True,
                  pending := map (\<lambda>row. (?q, bind_parameters row)) (replicate 20 ?r)\<rparr>) []"
      by (simp add: replicate_numeral execute_dml[OF dml] test_file_accept
            bind_parameters_def Let_def)
    show ?thesis unfolding a
      by (simp add: execute_dml[OF dml] test_file_reject bind_parameters_def Let_def)
  qed
  have st: "map (\<lambda>row. (?q, bind_parameters row)) (replicate 20 ?r) = replicate 20 test_insert_statement"
    by (simp add: test_file_bind test_insert_statement_def)
  show ?thesis
    unfolding lf ir st by (simp add: dbc_exit_def commit_def)
qed

text \<open>
  Claim C3 as stated fails on the repository's own test file: after the failed load the
  table statement is committed, so the call has left something behind.
\<close>

theorem failed_load_keeps_table:
  "returned (loadfile py3_ascii bindings_engine
               \<lparr>dbc = fresh_dbc, ignore_errors = False, log_warnings = False\<rparr>
               test_file (str ''A'') True)
     = Inl (SqlError [str ''Incorrect number of bindings supplied. The current statement uses 3, and there are 2 supplied. (test.csv, row 22) ''])
   \<and> committed (dbc_after (loadfile py3_ascii bindings_engine
               \<lparr>dbc = fresh_dbc, ignore_errors = False, log_warnings = False\<rparr>
               test_file (str ''A'') True))
     = [test_table_statement]
   \<and> committed (dbc_after (loadfile py3_ascii bindings_engine
               \<lparr>dbc = fresh_dbc, ignore_errors = False, log_warnings = False\<rparr>
               test_file (str ''A'') True))
     \<noteq> committed fresh_dbc"
  unfolding test_ignore_errors_False by (simp add: fresh_dbc_def)

theorem loadfile_row_failure_policy_witness:
  "sniffable test_file
   \<and> sample_schema py3_ascii (take 20 (records test_file))
       = Inr (True, [INTEGER, INTEGER, INTEGER], 2, Some [str ''A'', str ''B'', str ''C''])
   \<and> records test_file = [str ''A'', str ''B'', str ''C'']
       # (replicate 20 [str ''1'', str ''2'', str ''3''] @ [str ''7'', str ''8''] # [])
   \<and> \<not> ignore_errors \<lparr>dbc = fresh_dbc, ignore_errors = False, log_warnings = False\<rparr>
   \<and> returned (loadfile py3_ascii bindings_engine
                 \<lparr>dbc = fresh_dbc, ignore_errors = False, log_warnings = False\<rparr>
                 test_file (str ''A'') True)
       = Inl (SqlError [str ''Incorrect number of bindings supplied. The current statement uses 3, and there are 2 supplied. (test.csv, row 22) ''])
   \<and> dbc_after (loadfile py3_ascii bindings_engine
                 \<lparr>dbc = fresh_dbc, ignore_errors = False, log_warnings = False\<rparr>
                 test_file (str ''A'') True)
       = \<lparr>committed = [test_table_statement], pending = [], in_transaction = False\<rparr>"
proof -
  let ?self = "\<lparr>dbc = fresh_dbc, ignore_errors = False, log_warnings = False\<rparr>"
  let ?c1 = "\<lparr>committed = [test_table_statement], pending = [], in_transaction = False\<rparr>"
  let ?q = "str ''INSERT INTO A VALUES (?, ?, ?)''"
  let ?r = "[str ''1'', str ''2'', str ''3'']"
  let ?msg = "[str ''Incorrect number of bindings supplied. The current statement uses 3, and there are 2 supplied.'']"
  have cr: "(if True then create_table py3_ascii bindings_engine (dbc ?self) (str ''A'')
                   [INTEGER, INTEGER, INTEGER] (Some [str ''A'', str ''B'', str ''C'']) True
             else (Inr (), dbc ?self)) = (Inr (), ?c1)"
    using test_file_create by simp
  have sn: "sniffable test_file" by (simp add: test_file_def)
  have ie: "\<not> ignore_errors ?self" by simp
  have acc: "accepted_rows bindings_engine ?q (committed ?c1 @ pending ?c1) (replicate 20 ?r)
               = replicate 20 ?r"
    by (simp add: test_file_accepted)
  have rej: "bindings_engine
               (committed ?c1 @ pending ?c1 @ map (\<lambda>row. (?q, bind_parameters row)) (replicate 20 ?r))
               (?q, bind_parameters [str ''7'', str ''8'']) = Some ?msg"
    by (simp add: test_file_reject bind_parameters_def)
  note t = loadfile_row_failure_policy[OF sn test_file_schema cr test_file_records,
              unfolded test_file_query test_file_name if_True]
  from t ie have
    "\<forall>pre row post args.
        replicate 20 ?r @ [str ''7'', str ''8''] # [] = pre @ row # post
        \<and> accepted_rows bindings_engine ?q (committed ?c1 @ pending ?c1) pre = pre
        \<and> bindings_engine (committed ?c1 @ pending ?c1 @ map (\<lambda>r. (?q, bind_parameters r)) pre)
             (?q, bind_parameters row) = Some args
        \<longrightarrow>
        returned (loadfile py3_ascii bindings_engine ?self test_file (str ''A'') True)
          = Inl (SqlError
              (butlast (if args = [] then [[]] else args)
               @ [last (if args = [] then [[]] else args)
                  @ str '' ('' @ str ''test.csv'' @ str '', row ''
                  @ str_of_nat (length pre + 2) @ str '') '']))
        \<and> records test_file ! (length pre + 2 - 1) = row
        \<and> dbc_after (loadfile py3_ascii bindings_engine ?self test_file (str ''A'') True)
            = \<lparr>committed = committed ?c1, pending = [], in_transaction = False\<rparr>"
    by blast
  from this[rule_format, of "replicate 20 ?r" "[str ''7'', str ''8'']" "[]" ?msg] acc rej
  have "returned (loadfile py3_ascii bindings_engine ?self test_file (str ''A'') True)
          = Inl (SqlError
              (butlast (if ?msg = [] then [[]] else ?msg)
               @ [last (if ?msg = [] then [[]] else ?msg)
                  @ str '' ('' @ str ''test.csv'' @ str '', row ''
                  @ str_of_nat (length (replicate 20 ?r) + 2) @ str '') '']))"
    and d: "dbc_after (loadfile py3_ascii bindings_engine ?self test_file (str ''A'') True)
            = \<lparr>committed = committed ?c1, pending = [], in_transaction = False\<rparr>"
    by blast+
  then have r: "returned (loadfile py3_ascii bindings_engine ?self test_file (str ''A'') True)
          = Inl (SqlError [str ''Incorrect number of bindings supplied. The current statement uses 3, and there are 2 supplied. (test.csv, row 22) ''])"
    by (simp add: str_of_nat.simps str_def)
  from sn test_file_schema test_file_records ie r d show ?thesis by simp
qed

text \<open>
  Claim C4 as stated fails on the same file with \<open>ignore_errors\<close>: twenty rows are
  inserted and the call returns \<open>None\<close>, not 20.
\<close>

theorem loadfile_returns_no_count:
  "returned (loadfile py3_ascii bindings_engine
               \<lparr>dbc = fresh_dbc, ignore_errors = True, log_warnings = False\<rparr>
               test_file (str ''A'') True) = Inr PyNone
   \<and> committed (dbc_after (loadfile py3_ascii bindings_engine
               \<lparr>dbc = fresh_dbc, ignore_errors = True, log_warnings = False\<rparr>
               test_file (str ''A'') True))
     = test_table_statement # replicate 20 test_insert_statement
   \<and> returned (loadfile py3_ascii bindings_engine
               \<lparr>dbc = fresh_dbc, ignore_errors = True, log_warnings = False\<rparr>
               test_file (str ''A'') True) \<noteq> Inr (PyInt 20)"
  by (simp add: test_ignore_errors_True)

theorem loadfile_returns_None_witness:
  "returned (loadfile py3_ascii bindings_engine
               \<lparr>dbc = fresh_dbc, ignore_errors = False, log_warnings = False\<rparr>
               test_file (str ''A'') True)
     = Inl (SqlError [str ''Incorrect number of bindings supplied. The current statement uses 3, and there are 2 supplied. (test.csv, row 22) ''])
   \<and> returned (loadfile py3_ascii bindings_engine
               \<lparr>dbc = fresh_dbc, ignore_errors = True, log_warnings = False\<rparr>
               test_file (str ''A'') True) = Inr PyNone"
proof -
  from loadfile_returns_None[of py3_ascii bindings_engine
         "\<lparr>dbc = fresh_dbc, ignore_errors = True, log_warnings = False\<rparr>" test_file "str ''A''" True]
  have "returned (loadfile py3_ascii bindings_engine
               \<lparr>dbc = fresh_dbc, ignore_errors = True, log_warnings = False\<rparr>
               test_file (str ''A'') True) = Inr PyNone"
    by (simp add: test_ignore_errors_True)
  then show ?thesis by (simp add: test_ignore_errors_False)
qed

section \<open>Names that pass unchanged, and a load that returns\<close>





text \<open>A load that returns: the table statement ran and the accepted rows were inserted.\<close>

lemma insert_rows_returns:
  assumes "is_dml query"
    and "insert_rows eng self fname query lineno rows c log = (Inr u, c', log')"
  shows "committed c' = committed c
         \<and> pending c' = pending c @ map (\<lambda>row. (query, bind_parameters row))
                                      (accepted_rows eng query (committed c @ pending c) rows)"
  using assms(2)
proof (induction rows arbitrary: c log lineno)
  case Nil
  then show ?case by auto
next
  case (Cons row rest)
  show ?case
  proof (cases "eng (committed c @ pending c) (query, bind_parameters row)")
    case None
    let ?c = "c\<lparr>in_transaction := True, pending := pending c @ [(query, bind_parameters row)]\<rparr>"
    from Cons.prems None assms(1)
    have "insert_rows eng self fname query (lineno + 1) rest ?c log = (Inr u, c', log')"
      by (simp add: execute_dml Let_def)
    from Cons.IH[OF this] None show ?thesis by simp
  next
    case (Some args)
    let ?c = "c\<lparr>in_transaction := True\<rparr>"
    show ?thesis
    proof (cases "ignore_errors self")
      case False
      with Cons.prems Some assms(1) show ?thesis by (simp add: execute_dml Let_def)
    next
      case True
      let ?log = "if log_warnings self then log @ [add_suffix fname lineno args] else log"
      from Cons.prems Some assms(1) True
      have "insert_rows eng self fname query (lineno + 1) rest ?c ?log = (Inr u, c', log')"
        by (simp add: execute_dml Let_def split: if_splits)
      from Cons.IH[OF this] Some show ?thesis by simp
    qed
  qed
qed

lemma dbc_exit_returned:
  assumes "returned (dbc_exit (r, c, log)) = Inr PyNone"
  shows "\<exists>u. r = Inr u" and "dbc_after (dbc_exit (r, c, log)) = commit c"
  using assms by (cases r; simp add: dbc_exit_def)+

lemma loadfile_returns:
  assumes "sniffable file"
    and "sample_schema env (take 20 (records file)) = Inr (has_header, types, fln, columns)"
    and "records file = row0 # rest"
    and "returned (loadfile env eng self file tablename flag) = Inr PyNone"
  shows "\<exists>c1. (if flag then create_table env eng (dbc self) tablename types columns True
               else (Inr (), dbc self)) = (Inr (), c1)
           \<and> dbc_after (loadfile env eng self file tablename flag)
               = \<lparr>committed = (committed c1 @ pending c1)
                     @ map (\<lambda>row. (insert_query tablename (length row0), bind_parameters row))
                         (accepted_rows eng (insert_query tablename (length row0))
                            (committed c1 @ pending c1)
                            (if has_header then rest else row0 # rest)),
                  pending = [], in_transaction = False\<rparr>"
proof -
  let ?create = "if flag then create_table env eng (dbc self) tablename types columns True
                 else (Inr (), dbc self)"
  let ?q = "insert_query tablename (length row0)"
  let ?rowgen = "if has_header then rest else row0 # rest"
  obtain r1 c1 where cr: "?create = (r1, c1)" by (cases ?create) auto
  have t: "take 20 (records file) = row0 # take 19 rest" using assms(3) by simp
  have rg: "(if has_header then drop 1 (records file) else records file) = ?rowgen"
    using assms(3) by simp
  note lf = loadfile_unfold[OF assms(1,2), of eng self tablename flag, unfolded t rg]
  show ?thesis
  proof (cases r1)
    case (Inl e)
    with cr lf have "returned (loadfile env eng self file tablename flag) = Inl e"
      by (simp add: load_body_def dbc_exit_def)
    with assms(4) show ?thesis by simp
  next
    case (Inr u)
    with cr have cr': "?create = (Inr (), c1)" by simp
    obtain r c' log' where ir: "insert_rows eng self (filename file) ?q fln ?rowgen c1 [] = (r, c', log')"
      by (cases "insert_rows eng self (filename file) ?q fln ?rowgen c1 []") auto
    from lf have lf': "loadfile env eng self file tablename flag = dbc_exit (r, c', log')"
      unfolding load_body_unfold[OF cr'] ir .
    from assms(4) dbc_exit_returned[of r c' log'] obtain u' where r: "r = Inr u'"
      and da: "dbc_after (loadfile env eng self file tablename flag) = commit c'"
      unfolding lf' by blast
    from insert_rows_returns[OF is_dml_insert_query ir[unfolded r]]
    have "commit c' = \<lparr>committed = (committed c1 @ pending c1)
                     @ map (\<lambda>row. (?q, bind_parameters row))
                         (accepted_rows eng ?q (committed c1 @ pending c1) ?rowgen),
                  pending = [], in_transaction = False\<rparr>"
      by (simp add: commit_def)
    with da cr' show ?thesis by simp
  qed
qed




section \<open>The header decision\<close>


lemma table_created_create:
  assumes "create_table_query env tablename types columns True = Inr query"
  shows "table_created ((query, ps) # h) tablename"
proof -
  let ?start = "str ''CREATE TABLE IF NOT EXISTS '' @ quote_identifier tablename @ str '' (''"
  from assms obtain tail where "query = ?start @ tail"
    by (auto simp: create_table_query_unfold str_def split: if_splits)
  then have "take (length ?start) query = ?start" by simp
  then show ?thesis by (simp add: table_created_def)
qed






section \<open>A file of one record\<close>





lemma create_table_accepted:
  assumes "create_table_query env tablename types columns ine = Inr query"
    and "eng (committed c @ pending c) (query, []) = None"
  shows "create_table env eng c tablename types columns ine
           = (Inr (), if in_transaction c then c\<lparr>pending := pending c @ [(query, [])]\<rparr>
                      else c\<lparr>committed := committed c @ [(query, [])]\<rparr>)"
  using assms not_is_dml_create[OF assms(1)]
  by (simp add: create_table_def execute_def Let_def)



section \<open>Binding the cells of a row\<close>

lemma bind_parameters_nth:
  "i < length row \<Longrightarrow> bind_parameters row ! i = (if row ! i = [] then Null else Value (row ! i))"
  by (simp add: bind_parameters_def)

lemma bind_parameters_no_empty_string: "Value [] \<notin> set (bind_parameters row)"
  by (auto simp: bind_parameters_def)

lemma length_fetch_row: "length (fetch_row affinity parameters) = length parameters"
  by (simp add: fetch_row_def)

lemma fetch_row_nth:
  "i < length parameters \<Longrightarrow>
     fetch_row affinity parameters ! i
       = (case parameters ! i of Null \<Rightarrow> None | Value v \<Rightarrow> Some (affinity i v))"
  by (simp add: fetch_row_def)

lemma fetch_bound_row_nth:
  "i < length row \<Longrightarrow>
     fetch_row affinity (bind_parameters row) ! i
       = (if row ! i = [] then None else Some (affinity i (row ! i)))"
  by (simp add: fetch_row_nth bind_parameters_def)

lemma is_insert_into_insert_query: "is_insert_into tablename (insert_query tablename n)"
  by (simp add: is_insert_into_def insert_query_def)

lemma select_all_append:
  "select_all affinity tablename (log @ log')
     = select_all affinity tablename log @ select_all affinity tablename log'"
  by (simp add: select_all_def)

lemma select_all_inserts:
  "select_all affinity tablename
     (map (\<lambda>row. (insert_query tablename n, bind_parameters row)) rows)
   = map (\<lambda>row. fetch_row affinity (bind_parameters row)) rows"
  by (induction rows) (simp_all add: select_all_def is_insert_into_insert_query)

lemma create_table_statements:
  assumes "create_table env eng c tablename types columns ine = (r, c1)"
    and "stmt \<in> set (committed c1) \<union> set (pending c1)"
  shows "stmt \<in> set (committed c) \<union> set (pending c) \<or> (\<not> is_dml (fst stmt) \<and> snd stmt = [])"
proof (cases "create_table_query env tablename types columns ine")
  case (Inl e)
  with assms show ?thesis by (simp add: create_table_def)
next
  case (Inr query)
  from not_is_dml_create[OF Inr] have nd: "\<not> is_dml query" .
  from assms Inr nd show ?thesis
    by (auto simp: create_table_def execute_def Let_def split: option.splits if_splits)
qed

lemma load_body_statements:
  assumes "load_body env eng self file tablename flag sample types columns fln rowgen = (r, c', log')"
    and "stmt \<in> set (committed c') \<union> set (pending c')"
  shows "stmt \<in> set (committed (dbc self)) \<union> set (pending (dbc self))
         \<or> (\<not> is_dml (fst stmt) \<and> snd stmt = [])
         \<or> (fst stmt = insert_query tablename (length (hd sample))
            \<and> (\<exists>row\<in>set rowgen. snd stmt = bind_parameters row))"
proof -
  obtain r1 c1 where cr: "(if flag then create_table env eng (dbc self) tablename types columns True
            else (Inr (), dbc self)) = (r1, c1)" by (cases "(if flag then create_table env eng (dbc self) tablename types columns True
            else (Inr (), dbc self))") auto
  have c1: "s \<in> set (committed c1) \<union> set (pending c1) \<Longrightarrow>
            s \<in> set (committed (dbc self)) \<union> set (pending (dbc self))
            \<or> (\<not> is_dml (fst s) \<and> snd s = [])" for s
  proof (cases flag)
    case True
    assume "s \<in> set (committed c1) \<union> set (pending c1)"
    with cr True create_table_statements[of env eng "dbc self" tablename types columns True r1 c1 s]
    show ?thesis by simp
  next
    case False
    assume "s \<in> set (committed c1) \<union> set (pending c1)"
    with cr False show ?thesis by simp
  qed
  show ?thesis
  proof (cases r1)
    case (Inl e)
    with assms(1) cr have "c' = c1" by (simp add: load_body_def)
    with c1[of stmt] assms(2) show ?thesis by blast
  next
    case (Inr u)
    show ?thesis
    proof (cases sample)
      case Nil
      with assms(1) cr Inr have "c' = c1" by (simp add: load_body_def)
      with c1[of stmt] assms(2) show ?thesis by blast
    next
      case (Cons row0 rest)
      let ?q = "insert_query tablename (length row0)"
      from assms(1) cr Inr Cons
      have ir: "insert_rows eng self (filename file) ?q fln rowgen c1 [] = (r, c', log')"
        by (simp add: load_body_def)
      from insert_rows_pending[OF is_dml_insert_query ir] obtain rows' where
        cm: "committed c' = committed c1" and sub: "set rows' \<subseteq> set rowgen"
        and pd: "pending c' = pending c1 @ map (\<lambda>row. (?q, bind_parameters row)) rows'"
        by blast
      from assms(2) cm pd
      have "stmt \<in> set (committed c1) \<union> set (pending c1)
            \<or> (\<exists>row\<in>set rows'. stmt = (?q, bind_parameters row))" by auto
      then show ?thesis
      proof
        assume "stmt \<in> set (committed c1) \<union> set (pending c1)"
        from c1[OF this] show ?thesis by blast
      next
        assume "\<exists>row\<in>set rows'. stmt = (?q, bind_parameters row)"
        with sub Cons show ?thesis by auto
      qed
    qed
  qed
qed

lemma dbc_exit_statements:
  "set (committed (dbc_after (dbc_exit (r, c, log)))) \<union> set (pending (dbc_after (dbc_exit (r, c, log))))
     \<subseteq> set (committed c) \<union> set (pending c)"
  by (cases r) (auto simp: dbc_exit_def commit_def rollback_def)

lemma loadfile_statements:
  assumes "stmt \<in> set (committed (dbc_after (loadfile env eng self file tablename flag)))
                  \<union> set (pending (dbc_after (loadfile env eng self file tablename flag)))"
  shows "stmt \<in> set (committed (dbc self)) \<union> set (pending (dbc self))
         \<or> (\<not> is_dml (fst stmt) \<and> snd stmt = [])
         \<or> (fst stmt = insert_query tablename (length (hd (records file)))
            \<and> (\<exists>row\<in>set (records file). snd stmt = bind_parameters row))"
proof (cases "sniffable file")
  case False
  with assms show ?thesis by (simp add: loadfile_def)
next
  case True
  show ?thesis
  proof (cases "sample_schema env (take 20 (records file))")
    case (Inl e)
    with True assms show ?thesis by (simp add: loadfile_def)
  next
    case (Inr p)
    obtain has_header types fln columns where p: "p = (has_header, types, fln, columns)"
      by (cases p) auto
    let ?rowgen = "if has_header then drop 1 (records file) else records file"
    obtain r c' log' where lb:
      "load_body env eng self file tablename flag (take 20 (records file))
         types columns fln ?rowgen = (r, c', log')"
      by (cases "load_body env eng self file tablename flag (take 20 (records file))
         types columns fln ?rowgen") auto
    from Inr p have ss: "sample_schema env (take 20 (records file)) = Inr (has_header, types, fln, columns)"
      by simp
    from assms dbc_exit_statements[of r c' log']
    have "stmt \<in> set (committed c') \<union> set (pending c')"
      unfolding loadfile_unfold[OF True ss] lb by blast
    from load_body_statements[OF lb this]
    have "stmt \<in> set (committed (dbc self)) \<union> set (pending (dbc self))
         \<or> (\<not> is_dml (fst stmt) \<and> snd stmt = [])
         \<or> (fst stmt = insert_query tablename (length (hd (take 20 (records file))))
            \<and> (\<exists>row\<in>set ?rowgen. snd stmt = bind_parameters row))" .
    moreover have "hd (take 20 (records file)) = hd (records file)" by (cases "records file") auto
    moreover have "set ?rowgen \<subseteq> set (records file)" by (auto dest: in_set_dropD)
    ultimately show ?thesis by auto
  qed
qed

text \<open>
  Claim C8. \<open>parameters = [val if val else None for val in row]\<close>: a row is bound cell by
  cell, in position, an empty cell as \<open>None\<close> (the database null) and any other cell as its
  string, so the empty string is never bound; read back, the row has \<open>None\<close> exactly at
  its empty cells. Every statement a call of \<open>loadfile\<close> adds to the connection is either
  the table statement, which is not an insert and binds nothing, or the insert statement
  with the parameters so bound from a record of the file. When the call returns, reading
  the table back gives what was there after the table statement followed by the rows the
  engine accepted, each with \<open>None\<close> at its empty cells.
\<close>

theorem empty_cells_bound_as_null:
  "(length (bind_parameters row) = length row
    \<and> Value [] \<notin> set (bind_parameters row)
    \<and> length (fetch_row affinity (bind_parameters row)) = length row
    \<and> (\<forall>i<length row.
          bind_parameters row ! i = (if row ! i = [] then Null else Value (row ! i))
          \<and> fetch_row affinity (bind_parameters row) ! i
              = (if row ! i = [] then None else Some (affinity i (row ! i)))))
   \<and> (\<forall>stmt \<in> (set (committed (dbc_after (loadfile env eng self file tablename flag)))
                 \<union> set (pending (dbc_after (loadfile env eng self file tablename flag))))
                - (set (committed (dbc self)) \<union> set (pending (dbc self))).
        (\<not> is_dml (fst stmt) \<and> snd stmt = [])
        \<or> (fst stmt = insert_query tablename (length (hd (records file)))
           \<and> (\<exists>r\<in>set (records file). snd stmt = bind_parameters r)))
   \<and> (sniffable file
      \<and> sample_schema env (take 20 (records file)) = Inr (has_header, types, fln, columns)
      \<and> (if flag then create_table env eng (dbc self) tablename types columns True
          else (Inr (), dbc self)) = (Inr (), c1)
      \<and> records file = row0 # rest
      \<and> returned (loadfile env eng self file tablename flag) = Inr PyNone
      \<longrightarrow> select_all affinity tablename
            (committed (dbc_after (loadfile env eng self file tablename flag)))
          = select_all affinity tablename (committed c1 @ pending c1)
            @ map (\<lambda>row. fetch_row affinity (bind_parameters row))
                (accepted_rows eng (insert_query tablename (length row0))
                   (committed c1 @ pending c1) (if has_header then rest else row0 # rest)))"
proof (intro conjI ballI impI allI)
  show "length (bind_parameters row) = length row" by (simp add: bind_parameters_def)
  show "Value [] \<notin> set (bind_parameters row)" by (rule bind_parameters_no_empty_string)
  show "length (fetch_row affinity (bind_parameters row)) = length row"
    by (simp add: length_fetch_row bind_parameters_def)
next
  fix i assume "i < length row"
  then show "bind_parameters row ! i = (if row ! i = [] then Null else Value (row ! i))"
    by (rule bind_parameters_nth)
next
  fix i assume "i < length row"
  then show "fetch_row affinity (bind_parameters row) ! i
              = (if row ! i = [] then None else Some (affinity i (row ! i)))"
    by (rule fetch_bound_row_nth)
next
  fix stmt
  assume a: "stmt \<in> (set (committed (dbc_after (loadfile env eng self file tablename flag)))
                 \<union> set (pending (dbc_after (loadfile env eng self file tablename flag))))
                - (set (committed (dbc self)) \<union> set (pending (dbc self)))"
  then have "stmt \<in> set (committed (dbc_after (loadfile env eng self file tablename flag)))
                  \<union> set (pending (dbc_after (loadfile env eng self file tablename flag)))" by blast
  from loadfile_statements[OF this] a
  show "(\<not> is_dml (fst stmt) \<and> snd stmt = [])
         \<or> (fst stmt = insert_query tablename (length (hd (records file)))
            \<and> (\<exists>r\<in>set (records file). snd stmt = bind_parameters r))" by blast
next
  assume h: "sniffable file
      \<and> sample_schema env (take 20 (records file)) = Inr (has_header, types, fln, columns)
      \<and> (if flag then create_table env eng (dbc self) tablename types columns True
          else (Inr (), dbc self)) = (Inr (), c1)
      \<and> records file = row0 # rest
      \<and> returned (loadfile env eng self file tablename flag) = Inr PyNone"
  then have h1: "sniffable file"
    and h2: "sample_schema env (take 20 (records file)) = Inr (has_header, types, fln, columns)"
    and h3: "(if flag then create_table env eng (dbc self) tablename types columns True
          else (Inr (), dbc self)) = (Inr (), c1)"
    and h4: "records file = row0 # rest"
    and h5: "returned (loadfile env eng self file tablename flag) = Inr PyNone"
    by blast+
  from loadfile_returns[OF h1 h2 h4 h5] h3
  have "dbc_after (loadfile env eng self file tablename flag)
               = \<lparr>committed = (committed c1 @ pending c1)
                     @ map (\<lambda>row. (insert_query tablename (length row0), bind_parameters row))
                         (accepted_rows eng (insert_query tablename (length row0))
                            (committed c1 @ pending c1)
                            (if has_header then rest else row0 # rest)),
                  pending = [], in_transaction = False\<rparr>"
    by auto
  then show "select_all affinity tablename
            (committed (dbc_after (loadfile env eng self file tablename flag)))
          = select_all affinity tablename (committed c1 @ pending c1)
            @ map (\<lambda>row. fetch_row affinity (bind_parameters row))
                (accepted_rows eng (insert_query tablename (length row0))
                   (committed c1 @ pending c1) (if has_header then rest else row0 # rest))"
    by (simp only: connection.simps select_all_append select_all_inserts)
qed

lemma empty_cell_file_schema:
  "sample_schema py3_ascii (take 20 (records empty_cell_file)) = Inr (False, [TEXT, TEXT], 1, None)"
  by (simp add: empty_cell_file_def sample_schema_def detect_defs runtime_defs Let_def
        INTEGER_def TEXT_def)

lemma empty_cell_file_query:
  "create_table_query py3_ascii (str ''T'') [TEXT, TEXT] None True
   = Inr (str ''CREATE TABLE IF NOT EXISTS '' @ [DQUOTE] @ str ''T'' @ [DQUOTE] @ str '' (''
          @ [NEWLINE] @ str ''  '' @ [DQUOTE] @ str ''t1'' @ [DQUOTE] @ str '' TEXT,''
          @ [NEWLINE] @ str ''  '' @ [DQUOTE] @ str ''t2'' @ [DQUOTE] @ str '' TEXT''
          @ [NEWLINE] @ str '')'')"
  by (simp add: create_table_query_def column_names_def generated_columns_def
        quote_identifier_def DQUOTE_def NEWLINE_def TEXT_def runtime_defs str_of_nat.simps)

lemma empty_cell_file_load:
  "loadfile py3_ascii bindings_engine
     \<lparr>dbc = fresh_dbc, ignore_errors = False, log_warnings = False\<rparr> empty_cell_file
     (str ''T'') True
   = \<lparr>returned = Inr PyNone,
      dbc_after =
        \<lparr>committed =
           [(str ''CREATE TABLE IF NOT EXISTS '' @ [DQUOTE] @ str ''T'' @ [DQUOTE] @ str '' (''
               @ [NEWLINE] @ str ''  '' @ [DQUOTE] @ str ''t1'' @ [DQUOTE] @ str '' TEXT,''
               @ [NEWLINE] @ str ''  '' @ [DQUOTE] @ str ''t2'' @ [DQUOTE] @ str '' TEXT''
               @ [NEWLINE] @ str '')'', []),
            (str ''INSERT INTO T VALUES (?, ?)'', [Value (str ''x''), Null]),
            (str ''INSERT INTO T VALUES (?, ?)'', [Value (str ''y''), Value (str ''z'')])],
         pending = [], in_transaction = False\<rparr>,
      logged = []\<rparr>"
  and empty_cell_file_create:
  "(if True then create_table py3_ascii bindings_engine
                   (dbc \<lparr>dbc = fresh_dbc, ignore_errors = False, log_warnings = False\<rparr>)
                   (str ''T'') [TEXT, TEXT] None True
    else (Inr (), dbc \<lparr>dbc = fresh_dbc, ignore_errors = False, log_warnings = False\<rparr>))
   = (Inr (),
      \<lparr>committed =
         [(str ''CREATE TABLE IF NOT EXISTS '' @ [DQUOTE] @ str ''T'' @ [DQUOTE] @ str '' (''
             @ [NEWLINE] @ str ''  '' @ [DQUOTE] @ str ''t1'' @ [DQUOTE] @ str '' TEXT,''
             @ [NEWLINE] @ str ''  '' @ [DQUOTE] @ str ''t2'' @ [DQUOTE] @ str '' TEXT''
             @ [NEWLINE] @ str '')'', [])],
       pending = [], in_transaction = False\<rparr>)"
  and empty_cell_file_accepted:
  "accepted_rows bindings_engine (insert_query (str ''T'') (length [str ''x'', [] :: pystr]))
     (committed
        \<lparr>committed =
           [(str ''CREATE TABLE IF NOT EXISTS '' @ [DQUOTE] @ str ''T'' @ [DQUOTE] @ str '' (''
               @ [NEWLINE] @ str ''  '' @ [DQUOTE] @ str ''t1'' @ [DQUOTE] @ str '' TEXT,''
               @ [NEWLINE] @ str ''  '' @ [DQUOTE] @ str ''t2'' @ [DQUOTE] @ str '' TEXT''
               @ [NEWLINE] @ str '')'', [])],
         pending = [], in_transaction = False\<rparr>
      @ pending
        \<lparr>committed =
           [(str ''CREATE TABLE IF NOT EXISTS '' @ [DQUOTE] @ str ''T'' @ [DQUOTE] @ str '' (''
               @ [NEWLINE] @ str ''  '' @ [DQUOTE] @ str ''t1'' @ [DQUOTE] @ str '' TEXT,''
               @ [NEWLINE] @ str ''  '' @ [DQUOTE] @ str ''t2'' @ [DQUOTE] @ str '' TEXT''
               @ [NEWLINE] @ str '')'', [])],
         pending = [], in_transaction = False\<rparr>)
     [[str ''x'', []], [str ''y'', str ''z'']]
   = [[str ''x'', []], [str ''y'', str ''z'']]"
proof -
  let ?self = "\<lparr>dbc = fresh_dbc, ignore_errors = False, log_warnings = False\<rparr>"
  let ?ct = "str ''CREATE TABLE IF NOT EXISTS '' @ [DQUOTE] @ str ''T'' @ [DQUOTE] @ str '' (''
               @ [NEWLINE] @ str ''  '' @ [DQUOTE] @ str ''t1'' @ [DQUOTE] @ str '' TEXT,''
               @ [NEWLINE] @ str ''  '' @ [DQUOTE] @ str ''t2'' @ [DQUOTE] @ str '' TEXT''
               @ [NEWLINE] @ str '')''"
  let ?c1 = "\<lparr>committed = [(?ct, [])], pending = [], in_transaction = False\<rparr>"
  let ?rows = "[[str ''x'', []], [str ''y'', str ''z'']]"
  let ?q = "insert_query (str ''T'') (length [str ''x'', [] :: pystr])"
  have sn: "sniffable empty_cell_file" by (simp add: empty_cell_file_def)
  have rc: "records empty_cell_file = [str ''x'', []] # [[str ''y'', str ''z'']]"
    by (simp add: empty_cell_file_def)
  have ok: "bindings_engine (committed fresh_dbc @ pending fresh_dbc) (?ct, []) = None"
    by (simp add: bindings_engine_def fresh_dbc_def DQUOTE_def NEWLINE_def str_def)
  show cr: "(if True then create_table py3_ascii bindings_engine (dbc ?self) (str ''T'')
                   [TEXT, TEXT] None True
             else (Inr (), dbc ?self)) = (Inr (), ?c1)"
    using create_table_accepted[where eng = bindings_engine and c = fresh_dbc,
            OF empty_cell_file_query ok]
    by (simp add: fresh_dbc_def)
  have nm: "32 \<notin> set (str ''T'')" "63 \<notin> set (str ''T'')" by (simp_all add: str_def)
  have tc: "table_created (committed ?c1 @ pending ?c1) (str ''T'')"
    using table_created_create[OF empty_cell_file_query, of "[]" "[]"] by simp
  show acc: "accepted_rows bindings_engine ?q (committed ?c1 @ pending ?c1) ?rows = ?rows"
    unfolding accepted_rows_bindings_engine[OF nm tc] by simp
  have bp: "bind_parameters [str ''x'', []] = [Value (str ''x''), Null]"
    "bind_parameters [str ''y'', str ''z''] = [Value (str ''y''), Value (str ''z'')]"
    by (simp_all add: bind_parameters_def str_def)
  have q: "insert_query (str ''T'') (length [a, b]) = str ''INSERT INTO T VALUES (?, ?)''"
    for a b :: pystr
    by (simp add: insert_query_def str_def)
  have rg: "(if False then [[str ''y'', str ''z'']] else records empty_cell_file) = ?rows"
    by (simp add: empty_cell_file_def)
  show "loadfile py3_ascii bindings_engine ?self empty_cell_file (str ''T'') True
   = \<lparr>returned = Inr PyNone,
      dbc_after =
        \<lparr>committed =
           [(?ct, []),
            (str ''INSERT INTO T VALUES (?, ?)'', [Value (str ''x''), Null]),
            (str ''INSERT INTO T VALUES (?, ?)'', [Value (str ''y''), Value (str ''z'')])],
         pending = [], in_transaction = False\<rparr>,
      logged = []\<rparr>"
    unfolding loadfile_insert_phase[OF sn empty_cell_file_schema cr rc] rg
      insert_rows_all_accepted[OF is_dml_insert_query acc]
    by (simp only: q) (simp add: bp dbc_exit_def commit_def)
qed

theorem empty_cells_bound_as_null_witness:
  "sniffable empty_cell_file
   \<and> sample_schema py3_ascii (take 20 (records empty_cell_file))
       = Inr (False, [TEXT, TEXT], 1, None)
   \<and> returned (loadfile py3_ascii bindings_engine
                 \<lparr>dbc = fresh_dbc, ignore_errors = False, log_warnings = False\<rparr>
                 empty_cell_file (str ''T'') True) = Inr PyNone
   \<and> (str ''INSERT INTO T VALUES (?, ?)'', [Value (str ''x''), Null])
        \<in> set (committed (dbc_after (loadfile py3_ascii bindings_engine
                 \<lparr>dbc = fresh_dbc, ignore_errors = False, log_warnings = False\<rparr>
                 empty_cell_file (str ''T'') True)))
   \<and> bind_parameters [str ''x'', []] ! 1 = Null
   \<and> fetch_row text_affinity (bind_parameters [str ''x'', []]) ! 1 = None
   \<and> select_all text_affinity (str ''T'')
        (committed (dbc_after (loadfile py3_ascii bindings_engine
           \<lparr>dbc = fresh_dbc, ignore_errors = False, log_warnings = False\<rparr>
           empty_cell_file (str ''T'') True)))
       = [[Some (str ''x''), None], [Some (str ''y''), Some (str ''z'')]]"
proof -
  let ?self = "\<lparr>dbc = fresh_dbc, ignore_errors = False, log_warnings = False\<rparr>"
  let ?ct = "str ''CREATE TABLE IF NOT EXISTS '' @ [DQUOTE] @ str ''T'' @ [DQUOTE] @ str '' (''
               @ [NEWLINE] @ str ''  '' @ [DQUOTE] @ str ''t1'' @ [DQUOTE] @ str '' TEXT,''
               @ [NEWLINE] @ str ''  '' @ [DQUOTE] @ str ''t2'' @ [DQUOTE] @ str '' TEXT''
               @ [NEWLINE] @ str '')''"
  let ?c1 = "\<lparr>committed = [(?ct, [])], pending = [], in_transaction = False\<rparr>"
  let ?rows = "[[str ''x'', []], [str ''y'', str ''z'']]"
  have h1: "sniffable empty_cell_file" by (simp add: empty_cell_file_def)
  have h4: "records empty_cell_file = [str ''x'', []] # [[str ''y'', str ''z'']]"
    by (simp add: empty_cell_file_def)
  have h5: "returned (loadfile py3_ascii bindings_engine ?self empty_cell_file (str ''T'') True)
              = Inr PyNone"
    by (simp add: empty_cell_file_load)
  note t = empty_cells_bound_as_null[where row = "[str ''x'', []]" and affinity = text_affinity
             and env = py3_ascii and eng = bindings_engine and self = ?self
             and ?file = empty_cell_file and tablename = "str ''T''" and flag = True
             and has_header = False and types = "[TEXT, TEXT]" and fln = 1 and columns = None
             and ?c1.0 = ?c1 and ?row0.0 = "[str ''x'', []]" and rest = "[[str ''y'', str ''z'']]"]
  from t have "\<forall>i<length [str ''x'', [] :: pystr].
          bind_parameters [str ''x'', []] ! i
            = (if [str ''x'', []] ! i = [] then Null else Value ([str ''x'', []] ! i))
          \<and> fetch_row text_affinity (bind_parameters [str ''x'', []]) ! i
              = (if [str ''x'', []] ! i = [] then None
                 else Some (text_affinity i ([str ''x'', []] ! i)))"
    by (elim conjE)
  then have n: "bind_parameters [str ''x'', []] ! 1 = Null"
    and f: "fetch_row text_affinity (bind_parameters [str ''x'', []]) ! 1 = None"
    by simp_all
  from t have "sniffable empty_cell_file
      \<and> sample_schema py3_ascii (take 20 (records empty_cell_file))
          = Inr (False, [TEXT, TEXT], 1, None)
      \<and> (if True then create_table py3_ascii bindings_engine (dbc ?self) (str ''T'')
                        [TEXT, TEXT] None True
          else (Inr (), dbc ?self)) = (Inr (), ?c1)
      \<and> records empty_cell_file = [str ''x'', []] # [[str ''y'', str ''z'']]
      \<and> returned (loadfile py3_ascii bindings_engine ?self empty_cell_file (str ''T'') True)
          = Inr PyNone
      \<longrightarrow> select_all text_affinity (str ''T'')
            (committed (dbc_after (loadfile py3_ascii bindings_engine ?self empty_cell_file
               (str ''T'') True)))
          = select_all text_affinity (str ''T'') (committed ?c1 @ pending ?c1)
            @ map (\<lambda>row. fetch_row text_affinity (bind_parameters row))
                (accepted_rows bindings_engine
                   (insert_query (str ''T'') (length [str ''x'', [] :: pystr]))
                   (committed ?c1 @ pending ?c1)
                   (if False then [[str ''y'', str ''z'']]
                    else [str ''x'', []] # [[str ''y'', str ''z'']]))"
    by (elim conjE)
  with h1 empty_cell_file_schema empty_cell_file_create h4 h5
  have "select_all text_affinity (str ''T'')
            (committed (dbc_after (loadfile py3_ascii bindings_engine ?self empty_cell_file
               (str ''T'') True)))
          = select_all text_affinity (str ''T'') (committed ?c1 @ pending ?c1)
            @ map (\<lambda>row. fetch_row text_affinity (bind_parameters row))
                (accepted_rows bindings_engine
                   (insert_query (str ''T'') (length [str ''x'', [] :: pystr]))
                   (committed ?c1 @ pending ?c1)
                   (if False then [[str ''y'', str ''z'']]
                    else [str ''x'', []] # [[str ''y'', str ''z'']]))"
    by blast
  also have "(if False then [[str ''y'', str ''z'']]
              else [str ''x'', []] # [[str ''y'', str ''z'']]) = ?rows"
    by simp
  also note empty_cell_file_accepted
  also have "select_all text_affinity (str ''T'') (committed ?c1 @ pending ?c1)
            @ map (\<lambda>row. fetch_row text_affinity (bind_parameters row)) ?rows
          = [[Some (str ''x''), None], [Some (str ''y''), Some (str ''z'')]]"
    by (simp add: select_all_def is_insert_into_def fetch_row_def bind_parameters_def
          text_affinity_def DQUOTE_def NEWLINE_def str_def)
  finally have s: "select_all text_affinity (str ''T'')
            (committed (dbc_after (loadfile py3_ascii bindings_engine ?self empty_cell_file
               (str ''T'') True)))
          = [[Some (str ''x''), None], [Some (str ''y''), Some (str ''z'')]]" .
  have m: "(str ''INSERT INTO T VALUES (?, ?)'', [Value (str ''x''), Null])
        \<in> set (committed (dbc_after (loadfile py3_ascii bindings_engine ?self
                 empty_cell_file (str ''T'') True)))"
    by (simp add: empty_cell_file_load)
  from h1 empty_cell_file_schema h5 m n f s show ?thesis by (intro conjI)
qed

end
